theory Spec2Isabelle
  imports Complex_Main "HOL-Library.List_Lexorder" "HOL-Library.Char_ord"
    "HOL-Library.Code_Target_Numeral"
begin

section \<open>Flow records and Python values\<close>

text \<open>
  \<^verbatim>\<open>analyze_json.py\<close> reads a JSON dump: a dict from export timestamps to lists of flow
  records, each flow record a dict from field names to values. The values modelled here
  are the JSON integers, strings and null, and \<^verbatim>\<open>NaN\<close>, which \<^verbatim>\<open>json.loads\<close> accepts
  and reads as the float that is not a number: every comparison with it is false, so it
  is the one number that \<^verbatim>\<open>>=\<close> does not order. Other floats are outside the model.
  A flow is the dict as the list of its items, one per key, looked up with \<open>map_of\<close>.
  Python's exceptions are values of the type \<open>error\<close>, and every operation that can
  raise returns \<open>error + 'a\<close> with \<open>Inl\<close> for the exception.
\<close>

datatype jval = JInt int | JNaN | JStr string | JNull

datatype error = KeyError string | TypeError | ValueError | OverflowError | OSError

type_synonym flow = "(string \<times> jval) list"

text \<open>\<^verbatim>\<open>flow[key]\<close>: a missing key raises KeyError.\<close>

definition getitem :: "flow \<Rightarrow> string \<Rightarrow> error + jval" where
  "getitem flow k = (case map_of flow k of None \<Rightarrow> Inl (KeyError k) | Some v \<Rightarrow> Inr v)"

section \<open>Numbers as Python prints them\<close>

text \<open>\<^verbatim>\<open>"%d" % n\<close> for an integer: its decimal digits, with a minus sign when negative.\<close>

fun str_nat :: "nat \<Rightarrow> string" where
  "str_nat n =
     (if n < 10 then [''0123456789'' ! n]
      else str_nat (n div 10) @ [''0123456789'' ! (n mod 10)])"

declare str_nat.simps [simp del]

definition str_int :: "int \<Rightarrow> string" where
  "str_int i = (if i < 0 then CHR ''-'' # str_nat (nat (- i)) else str_nat (nat i))"

text \<open>
  \<^verbatim>\<open>"%02d" % n\<close>: at least two characters, filled with a zero on the left. A negative
  number already has two.
\<close>

definition fmt_02d :: "int \<Rightarrow> string" where
  "fmt_02d i = (if 0 \<le> i \<and> i < 10 then CHR ''0'' # str_int i else str_int i)"

text \<open>
  Python's floats are IEEE doubles; the value of a finite double is a rational number, and
  the model computes with that value. \<open>bit_length\<close> is \<^verbatim>\<open>int.bit_length\<close>,
  \<open>ilog2 x\<close> the exponent of the binade of a positive \<open>x\<close>, \<open>round_half_even\<close>
  rounding to the nearest integer with ties to the even one, and \<open>to_double x\<close> the
  double nearest to \<open>x\<close> (53 significant bits, least exponent \<open>-1074\<close>): what
  \<^verbatim>\<open>float(n)\<close> and the true division \<^verbatim>\<open>a / b\<close> of two integers return, and
  OverflowError when the result is beyond the largest double.
\<close>

fun bit_length :: "nat \<Rightarrow> nat" where
  "bit_length n = (if n = 0 then 0 else Suc (bit_length (n div 2)))"

declare bit_length.simps [simp del]

definition pow2 :: "int \<Rightarrow> rat" where
  "pow2 e = (if 0 \<le> e then 2 ^ nat e else 1 / 2 ^ nat (- e))"

definition ilog2 :: "rat \<Rightarrow> int" where
  "ilog2 x =
     (if 1 \<le> x then int (bit_length (nat \<lfloor>x\<rfloor>)) - 1
      else (let k = int (bit_length (nat \<lfloor>1 / x\<rfloor>))
            in if x * pow2 (k - 1) = 1 then 1 - k else - k))"

definition round_half_even :: "rat \<Rightarrow> int" where
  "round_half_even x =
     (let f = \<lfloor>x\<rfloor>; r = x - of_int f
      in if r < 1 / 2 then f
         else if 1 / 2 < r then f + 1
         else if even f then f else f + 1)"

definition to_double :: "rat \<Rightarrow> error + rat" where
  "to_double x =
     (if x = 0 then Inr 0
      else (let a = \<bar>x\<bar>;
                e = max (ilog2 a - 52) (- 1074);
                v = of_int (round_half_even (a / pow2 e)) * pow2 e
            in if 2 ^ 1024 \<le> v then Inl OverflowError
               else Inr (if x < 0 then - v else v)))"

text \<open>\<^verbatim>\<open>"%d" % x\<close> for a float truncates towards zero.\<close>

definition trunc :: "rat \<Rightarrow> int" where
  "trunc x = (if 0 \<le> x then \<lfloor>x\<rfloor> else \<lceil>x\<rceil>)"

text \<open>
  \<^verbatim>\<open>"%.2f" % x\<close>: the decimal with two fraction digits nearest to the double's value,
  ties to even.
\<close>

definition fmt_2f :: "rat \<Rightarrow> string" where
  "fmt_2f x =
     (let h = nat (round_half_even (\<bar>x\<bar> * 100));
          body = str_nat (h div 100) @ ''.'' @ str_nat (h mod 100 div 10) @ str_nat (h mod 10)
      in if x < 0 then CHR ''-'' # body else body)"

section \<open>Python's operators on the values\<close>

text \<open>
  \<^verbatim>\<open>a >= b\<close>: two integers compare as integers, two strings lexicographically by code
  point; a comparison of numbers in which NaN takes part is false, whatever the other
  number; every other combination raises TypeError.
\<close>

definition py_ge :: "jval \<Rightarrow> jval \<Rightarrow> error + bool" where
  "py_ge a b =
     (case (a, b) of
        (JInt x, JInt y) \<Rightarrow> Inr (y \<le> x)
      | (JInt x, JNaN) \<Rightarrow> Inr False
      | (JNaN, JInt y) \<Rightarrow> Inr False
      | (JNaN, JNaN) \<Rightarrow> Inr False
      | (JStr s, JStr t) \<Rightarrow> Inr (t \<le> s)
      | _ \<Rightarrow> Inl TypeError)"

text \<open>
  \<^verbatim>\<open>v < k\<close> and \<^verbatim>\<open>v > k\<close> for an integer constant \<open>k\<close>, as in
  \<^verbatim>\<open>self.duration < 0\<close> and \<^verbatim>\<open>con.size > 1024**2\<close>: false for NaN, TypeError for a
  string or null.
\<close>

definition py_lt :: "jval \<Rightarrow> int \<Rightarrow> error + bool" where
  "py_lt v k = (case v of JInt n \<Rightarrow> Inr (n < k) | JNaN \<Rightarrow> Inr False | _ \<Rightarrow> Inl TypeError)"

definition py_gt :: "jval \<Rightarrow> int \<Rightarrow> error + bool" where
  "py_gt v k = (case v of JInt n \<Rightarrow> Inr (k < n) | JNaN \<Rightarrow> Inr False | _ \<Rightarrow> Inl TypeError)"

text \<open>
  \<^verbatim>\<open>a - b\<close> and \<^verbatim>\<open>a + b\<close> on numbers: two integers give an integer. With NaN as one
  operand the other is converted to a float first, which raises OverflowError for an
  integer beyond the doubles, and the result is NaN. \<^verbatim>\<open>+\<close> concatenates two strings;
  every other combination raises TypeError.
\<close>

definition with_nan :: "jval \<Rightarrow> error + jval" where
  "with_nan v =
     (case v of
        JInt n \<Rightarrow> (case to_double (of_int n) of Inl e \<Rightarrow> Inl e | Inr x \<Rightarrow> Inr JNaN)
      | JNaN \<Rightarrow> Inr JNaN
      | _ \<Rightarrow> Inl TypeError)"

definition py_sub :: "jval \<Rightarrow> jval \<Rightarrow> error + jval" where
  "py_sub a b =
     (case (a, b) of
        (JInt x, JInt y) \<Rightarrow> Inr (JInt (x - y))
      | (JNaN, _) \<Rightarrow> with_nan b
      | (_, JNaN) \<Rightarrow> with_nan a
      | _ \<Rightarrow> Inl TypeError)"

definition py_add :: "jval \<Rightarrow> jval \<Rightarrow> error + jval" where
  "py_add a b =
     (case (a, b) of
        (JInt x, JInt y) \<Rightarrow> Inr (JInt (x + y))
      | (JStr s, JStr t) \<Rightarrow> Inr (JStr (s @ t))
      | (JNaN, _) \<Rightarrow> with_nan b
      | (_, JNaN) \<Rightarrow> with_nan a
      | _ \<Rightarrow> Inl TypeError)"

section \<open>The environment\<close>

text \<open>
  The operating system and the library behind the script: \<^verbatim>\<open>ipaddress.ip_address\<close>
  (ValueError on a value that is no address), \<^verbatim>\<open>str\<close> of an address object,
  \<^verbatim>\<open>socket.getfqdn\<close>, \<^verbatim>\<open>socket.getservbyport\<close> (OSError when the port has no
  service name) and the formatting of an export key by
  \<^verbatim>\<open>datetime.fromtimestamp(float(export)).strftime(...)\<close>. They are parameters: every
  theorem below holds whatever they return.
\<close>

record 'a env =
  ip_address :: "jval \<Rightarrow> error + 'a"
  addr_str :: "'a \<Rightarrow> string"
  getfqdn :: "string \<Rightarrow> string"
  getservbyport :: "jval \<Rightarrow> error + string"
  format_timestamp :: "string \<Rightarrow> error + string"

section \<open>getIPs\<close>

text \<open>
  Lines 22 to 27: the flag \<^verbatim>\<open>use_ipv4\<close>, with the source's \<^verbatim>\<open>if\<close>/\<^verbatim>\<open>elif\<close>.
  \<^verbatim>\<open>flow['IP_PROTOCOL_VERSION'] == 4\<close> holds for the integer 4 only.
\<close>

definition use_ipv4 :: "flow \<Rightarrow> bool" where
  "use_ipv4 flow =
     (if map_of flow ''IP_PROTOCOL_VERSION'' \<noteq> None \<and> map_of flow ''IP_PROTOCOL_VERSION'' = Some (JInt 4)
      then True
      else if map_of flow ''IPV4_SRC_ADDR'' \<noteq> None \<or> map_of flow ''IPV4_DST_ADDR'' \<noteq> None
      then True
      else False)"

text \<open>
  \<^verbatim>\<open>Pair(ip_address(flow[ks]), ip_address(flow[kd]))\<close>: Python evaluates the arguments
  left to right, so the source key is read and parsed before the destination key is read.
\<close>

definition addr_pair :: "'a env \<Rightarrow> flow \<Rightarrow> string \<Rightarrow> string \<Rightarrow> error + ('a \<times> 'a)" where
  "addr_pair E flow ks kd =
     (case getitem flow ks of Inl e \<Rightarrow> Inl e | Inr vs \<Rightarrow>
     (case ip_address E vs of Inl e \<Rightarrow> Inl e | Inr s \<Rightarrow>
     (case getitem flow kd of Inl e \<Rightarrow> Inl e | Inr vd \<Rightarrow>
     (case ip_address E vd of Inl e \<Rightarrow> Inl e | Inr d \<Rightarrow>
      Inr (s, d)))))"

definition getIPs :: "'a env \<Rightarrow> flow \<Rightarrow> error + ('a \<times> 'a)" where
  "getIPs E flow =
     (if use_ipv4 flow
      then addr_pair E flow ''IPV4_SRC_ADDR'' ''IPV4_DST_ADDR''
      else addr_pair E flow ''IPV6_SRC_ADDR'' ''IPV6_DST_ADDR'')"

section \<open>Connection\<close>

record 'a connection =
  src :: 'a
  dest :: 'a
  src_port :: jval
  dest_port :: jval
  size_c :: jval
  duration :: jval

text \<open>
  Lines 48 to 53 of \<^verbatim>\<open>Connection.__init__\<close>: the flow with the larger IN_BYTES is
  \<^verbatim>\<open>src\<close>, the first one on a tie. The result is the pair \<open>(src, dest)\<close>.
\<close>

definition dominant :: "flow \<Rightarrow> flow \<Rightarrow> error + (flow \<times> flow)" where
  "dominant flow1 flow2 =
     (case getitem flow1 ''IN_BYTES'' of Inl e \<Rightarrow> Inl e | Inr a \<Rightarrow>
     (case getitem flow2 ''IN_BYTES'' of Inl e \<Rightarrow> Inl e | Inr b \<Rightarrow>
     (case py_ge a b of Inl e \<Rightarrow> Inl e | Inr ge \<Rightarrow>
      if ge then Inr (flow1, flow2) else Inr (flow2, flow1))))"

text \<open>
  Lines 62 to 66: the duration in milliseconds, with the correction for a wrapped 32-bit
  counter. The duration is an integer, or NaN when one of the two times is NaN.
\<close>

definition duration_of :: "flow \<Rightarrow> error + jval" where
  "duration_of sflow =
     (case getitem sflow ''LAST_SWITCHED'' of Inl e \<Rightarrow> Inl e | Inr l \<Rightarrow>
     (case getitem sflow ''FIRST_SWITCHED'' of Inl e \<Rightarrow> Inl e | Inr f \<Rightarrow>
     (case py_sub l f of Inl e \<Rightarrow> Inl e | Inr d \<Rightarrow>
     (case py_lt d 0 of Inl e \<Rightarrow> Inl e | Inr negative \<Rightarrow>
      if negative
      then (case py_sub (JInt (2 ^ 32)) f of Inl e \<Rightarrow> Inl e | Inr w \<Rightarrow> py_add w l)
      else Inr d))))"

text \<open>Lines 55 to 66: the attributes, all read from the \<^verbatim>\<open>src\<close> flow.\<close>

definition connection_of_src :: "'a env \<Rightarrow> flow \<Rightarrow> error + 'a connection" where
  "connection_of_src E sflow =
     (case getIPs E sflow of Inl e \<Rightarrow> Inl e | Inr ips \<Rightarrow>
     (case getitem sflow ''L4_SRC_PORT'' of Inl e \<Rightarrow> Inl e | Inr sp \<Rightarrow>
     (case getitem sflow ''L4_DST_PORT'' of Inl e \<Rightarrow> Inl e | Inr dp \<Rightarrow>
     (case getitem sflow ''IN_BYTES'' of Inl e \<Rightarrow> Inl e | Inr sz \<Rightarrow>
     (case duration_of sflow of Inl e \<Rightarrow> Inl e | Inr d \<Rightarrow>
      Inr \<lparr>src = fst ips, dest = snd ips, src_port = sp, dest_port = dp,
           size_c = sz, duration = d\<rparr>)))))"

text \<open>\<^verbatim>\<open>Connection(flow1, flow2)\<close>.\<close>

definition Connection :: "'a env \<Rightarrow> flow \<Rightarrow> flow \<Rightarrow> error + 'a connection" where
  "Connection E flow1 flow2 =
     (case dominant flow1 flow2 of Inl e \<Rightarrow> Inl e | Inr sd \<Rightarrow> connection_of_src E (fst sd))"

section \<open>The properties of a Connection\<close>

text \<open>
  \<^verbatim>\<open>human_size\<close>, lines 73 to 82. \<^verbatim>\<open>self.size / 1024.\<close> converts the integer to a
  float first; dividing a double by a power of two is exact here. For NaN all three
  comparisons are false, so the last branch formats it, and \<^verbatim>\<open>"%.2f"\<close> prints NaN as
  "nan". A string or null raises TypeError at the first comparison.
\<close>

definition human_size :: "'a connection \<Rightarrow> error + string" where
  "human_size c =
     (case size_c c of
        JInt n \<Rightarrow>
          if n < 1024 then Inr (str_int n @ ''B'')
          else (case to_double (of_int n) of Inl e \<Rightarrow> Inl e | Inr x \<Rightarrow>
                if x / 1024 < 1024 then Inr (fmt_2f (x / 1024) @ ''K'')
                else if x / 1024 ^ 2 < 1024 then Inr (fmt_2f (x / 1024 ^ 2) @ ''M'')
                else Inr (fmt_2f (x / 1024 ^ 3) @ ''G''))
      | JNaN \<Rightarrow> Inr (''nan'' @ ''G'')
      | _ \<Rightarrow> Inl TypeError)"

text \<open>
  \<^verbatim>\<open>human_duration\<close>, lines 85 to 94. \<^verbatim>\<open>//\<close> and \<^verbatim>\<open>%\<close> are floor division and
  its remainder, as \<open>div\<close> and \<open>mod\<close> on \<open>int\<close>; \<^verbatim>\<open>/\<close> is true division, which
  gives a float. The arguments of \<^verbatim>\<open>%\<close>-formatting are evaluated left to right. For
  NaN the floor division gives NaN and both tests are false, so the last line formats
  it, and \<^verbatim>\<open>"%02d"\<close> of NaN raises ValueError. A Connection has no other duration than
  an integer or NaN; on a string or null \<^verbatim>\<open>//\<close> would raise TypeError.
\<close>

definition human_duration :: "'a connection \<Rightarrow> error + string" where
  "human_duration c =
     (case duration c of
        JInt ms \<Rightarrow>
          (let d = ms div 1000
           in if d < 60 then Inr (str_int d @ '' sec'')
              else (case to_double (of_int d / 60) of Inl e \<Rightarrow> Inl e | Inr m \<Rightarrow>
                    if 60 < m
                    then (case to_double (of_int d / 60 ^ 2) of Inl e \<Rightarrow> Inl e | Inr h \<Rightarrow>
                         (case to_double (of_int (d mod 60 ^ 2) / 60) of Inl e \<Rightarrow> Inl e | Inr hm \<Rightarrow>
                          Inr (str_int (trunc h) @ '':'' @ fmt_02d (trunc hm) @ ''.''
                               @ fmt_02d (d mod 60) @ '' hours'')))
                    else Inr (fmt_02d (trunc m) @ '':'' @ fmt_02d (d mod 60) @ '' min'')))
      | JNaN \<Rightarrow> Inl ValueError
      | _ \<Rightarrow> Inl TypeError)"

text \<open>\<^verbatim>\<open>hostnames\<close>, lines 97 to 102.\<close>

definition hostnames :: "'a env \<Rightarrow> 'a connection \<Rightarrow> string \<times> string" where
  "hostnames E c = (getfqdn E (addr_str E (src c)), getfqdn E (addr_str E (dest c)))"

text \<open>
  \<^verbatim>\<open>service\<close>, lines 105 to 117: only OSError is caught; any other exception of the lookup
  propagates.
\<close>

definition service :: "'a env \<Rightarrow> 'a connection \<Rightarrow> error + string" where
  "service E c =
     (case getservbyport E (src_port c) of
        Inr s \<Rightarrow> Inr s
      | Inl e \<Rightarrow>
          if e = OSError
          then (case getservbyport E (dest_port c) of
                  Inr s \<Rightarrow> Inr s
                | Inl e' \<Rightarrow> if e' = OSError then Inr ''unknown'' else Inl e')
          else Inl e)"

section \<open>The main loop\<close>

text \<open>
  The script's variables that outlive one iteration: \<^verbatim>\<open>pending\<close> and what has been
  printed so far. An uncaught exception ends the script, so a step returns the exception
  or the next state.
\<close>

record state =
  pending :: "flow option"
  printed :: "string list"

text \<open>
  \<^verbatim>\<open>not pending\<close> is Python's truth test: true for \<^verbatim>\<open>None\<close>, and for a dict
  without keys as well.
\<close>

definition not_pending :: "flow option \<Rightarrow> bool" where
  "not_pending p = (case p of None \<Rightarrow> True | Some f \<Rightarrow> f = [])"

text \<open>\<^verbatim>\<open>str.upper\<close> on the ASCII letters, and the left-aligned padding of \<^verbatim>\<open>{x:7}\<close>.\<close>

definition upper :: "string \<Rightarrow> string" where
  "upper s =
     map (\<lambda>c. case map_of (zip ''abcdefghijklmnopqrstuvwxyz'' ''ABCDEFGHIJKLMNOPQRSTUVWXYZ'') c of
                None \<Rightarrow> c
              | Some u \<Rightarrow> u) s"

definition ljust :: "nat \<Rightarrow> string \<Rightarrow> string" where
  "ljust w s = s @ replicate (w - length s) CHR '' ''"

text \<open>
  Lines 143 to 148: the line that is printed. The keyword arguments of \<^verbatim>\<open>format\<close> are
  evaluated in the order written: service, host names, size, duration.
\<close>

definition summary_line :: "'a env \<Rightarrow> string \<Rightarrow> 'a connection \<Rightarrow> error + string" where
  "summary_line E timestamp con =
     (case service E con of Inl e \<Rightarrow> Inl e | Inr sv \<Rightarrow>
     (case human_size con of Inl e \<Rightarrow> Inl e | Inr sz \<Rightarrow>
     (case human_duration con of Inl e \<Rightarrow> Inl e | Inr du \<Rightarrow>
      Inr (timestamp @ '': '' @ ljust 7 (upper sv) @ '' | '' @ ljust 8 sz @ '' | ''
           @ ljust 9 du @ '' | '' @ fst (hostnames E con) @ '' ('' @ addr_str E (src con)
           @ '') to '' @ snd (hostnames E con) @ '' ('' @ addr_str E (dest con) @ '')''))))"

text \<open>
  Lines 140 to 149, the \<^verbatim>\<open>else\<close> branch of the loop body: build the Connection, print
  it when its size is above \<^verbatim>\<open>1024**2\<close>, clear \<^verbatim>\<open>pending\<close>.
\<close>

definition on_pair :: "'a env \<Rightarrow> string \<Rightarrow> state \<Rightarrow> flow \<Rightarrow> flow \<Rightarrow> error + state" where
  "on_pair E timestamp st p flow =
     (case Connection E p flow of Inl e \<Rightarrow> Inl e | Inr con \<Rightarrow>
     (case py_gt (size_c con) (1024 ^ 2) of Inl e \<Rightarrow> Inl e | Inr large \<Rightarrow>
      if large
      then (case summary_line E timestamp con of Inl e \<Rightarrow> Inl e | Inr line \<Rightarrow>
            Inr \<lparr>pending = None, printed = printed st @ [line]\<rparr>)
      else Inr (st\<lparr>pending := None\<rparr>)))"

text \<open>Lines 137 to 149: the body of \<^verbatim>\<open>for flow in flows\<close>.\<close>

definition step :: "'a env \<Rightarrow> string \<Rightarrow> state \<Rightarrow> flow \<Rightarrow> error + state" where
  "step E timestamp st flow =
     (if not_pending (pending st) then Inr (st\<lparr>pending := Some flow\<rparr>)
      else (case pending st of
              None \<Rightarrow> Inr (st\<lparr>pending := Some flow\<rparr>)
            | Some p \<Rightarrow> on_pair E timestamp st p flow))"

fun run_flows :: "'a env \<Rightarrow> string \<Rightarrow> state \<Rightarrow> flow list \<Rightarrow> error + state" where
  "run_flows E timestamp st [] = Inr st"
| "run_flows E timestamp st (flow # flows) =
     (case step E timestamp st flow of
        Inl e \<Rightarrow> Inl e
      | Inr st' \<Rightarrow> run_flows E timestamp st' flows)"

text \<open>
  Lines 131 to 135. \<open>data\<close> is the loaded dict as the list of its items, one per key;
  \<^verbatim>\<open>sorted(data)\<close> sorts the keys, which are strings. The timestamp is formatted before
  the flows are looked at, and \<^verbatim>\<open>pending\<close> is assigned \<^verbatim>\<open>None\<close> for every export.
\<close>

type_synonym dump = "(string \<times> flow list) list"

definition run_export :: "'a env \<Rightarrow> dump \<Rightarrow> state \<Rightarrow> string \<Rightarrow> error + state" where
  "run_export E data st export =
     (case format_timestamp E export of Inl e \<Rightarrow> Inl e | Inr timestamp \<Rightarrow>
     (case map_of data export of None \<Rightarrow> Inl (KeyError export) | Some flows \<Rightarrow>
      run_flows E timestamp (st\<lparr>pending := None\<rparr>) flows))"

fun run_exports :: "'a env \<Rightarrow> dump \<Rightarrow> state \<Rightarrow> string list \<Rightarrow> error + state" where
  "run_exports E data st [] = Inr st"
| "run_exports E data st (export # exports) =
     (case run_export E data st export of
        Inl e \<Rightarrow> Inl e
      | Inr st' \<Rightarrow> run_exports E data st' exports)"

definition main :: "'a env \<Rightarrow> dump \<Rightarrow> error + state" where
  "main E data = run_exports E data \<lparr>pending = None, printed = []\<rparr> (sort (map fst data))"

section \<open>A sample environment and sample flows\<close>

text \<open>
  One environment on which the model can be run. \<open>sample_ip_address\<close> treats an
  integer as \<^verbatim>\<open>ipaddress.ip_address\<close> does: an IPv4 address below \<open>2^32\<close>, an IPv6
  address below \<open>2^128\<close>, ValueError outside; it has no parser for strings and rejects
  them, so the sample flows carry their addresses as integers. An IPv4 address prints as
  a dotted quad, an IPv6 address as its eight groups in hexadecimal without the \<open>::\<close>
  abbreviation. No host name resolves, so \<^verbatim>\<open>getfqdn\<close> returns its argument. The service
  table knows three ports; \<open>sample_getservbyport\<close> raises OverflowError for a port
  outside \<open>0..65535\<close> and TypeError for a value that is no integer, as
  \<^verbatim>\<open>socket.getservbyport\<close> does. The timestamp of an export is left as the digits of its
  key, and a key with another character raises ValueError.
\<close>

datatype addr = IPv4Address int | IPv6Address int

definition sample_ip_address :: "jval \<Rightarrow> error + addr" where
  "sample_ip_address v =
     (case v of
        JInt n \<Rightarrow>
          if 0 \<le> n \<and> n < 2 ^ 32 then Inr (IPv4Address n)
          else if 0 \<le> n \<and> n < 2 ^ 128 then Inr (IPv6Address n)
          else Inl ValueError
      | _ \<Rightarrow> Inl ValueError)"

fun hex_nat :: "nat \<Rightarrow> string" where
  "hex_nat n =
     (if n < 16 then [''0123456789abcdef'' ! n]
      else hex_nat (n div 16) @ [''0123456789abcdef'' ! (n mod 16)])"

declare hex_nat.simps [simp del]

fun join :: "string \<Rightarrow> string list \<Rightarrow> string" where
  "join sep [] = []"
| "join sep [x] = x"
| "join sep (x # y # ys) = x @ sep @ join sep (y # ys)"

definition sample_addr_str :: "addr \<Rightarrow> string" where
  "sample_addr_str a =
     (case a of
        IPv4Address n \<Rightarrow>
          join ''.'' (map (\<lambda>i. str_nat (nat (n div 256 ^ (3 - i) mod 256))) [0 ..< 4])
      | IPv6Address n \<Rightarrow>
          join '':'' (map (\<lambda>i. hex_nat (nat (n div 65536 ^ (7 - i) mod 65536))) [0 ..< 8]))"

definition sample_getservbyport :: "jval \<Rightarrow> error + string" where
  "sample_getservbyport v =
     (case v of
        JInt p \<Rightarrow>
          if p < 0 \<or> 65535 < p then Inl OverflowError
          else if p = 22 then Inr ''ssh''
          else if p = 80 then Inr ''http''
          else if p = 443 then Inr ''https''
          else Inl OSError
      | _ \<Rightarrow> Inl TypeError)"

definition sample_format_timestamp :: "string \<Rightarrow> error + string" where
  "sample_format_timestamp export =
     (if export \<noteq> [] \<and> list_all (\<lambda>c. c \<in> set ''0123456789'') export then Inr export
      else Inl ValueError)"

definition sample_env :: "addr env" where
  "sample_env =
     \<lparr>ip_address = sample_ip_address, addr_str = sample_addr_str, getfqdn = (\<lambda>name. name),
      getservbyport = sample_getservbyport, format_timestamp = sample_format_timestamp\<rparr>"

text \<open>
  An IPv4 flow record with the seven fields the script reads: addresses, ports, byte count
  and the two switch times.
\<close>

definition flow4 :: "int \<Rightarrow> int \<Rightarrow> int \<Rightarrow> int \<Rightarrow> int \<Rightarrow> int \<Rightarrow> int \<Rightarrow> flow" where
  "flow4 sa da sp dp bytes t0 t1 =
     [(''IPV4_SRC_ADDR'', JInt sa), (''IPV4_DST_ADDR'', JInt da),
      (''L4_SRC_PORT'', JInt sp), (''L4_DST_PORT'', JInt dp),
      (''IN_BYTES'', JInt bytes),
      (''FIRST_SWITCHED'', JInt t0), (''LAST_SWITCHED'', JInt t1)]"

text \<open>
  The flow record \<open>flow4 167772161 3232235777 51000 443 n 1000 4000\<close> with NaN in the
  place of the byte count \<open>n\<close>.
\<close>

definition nan_flow :: flow where
  "nan_flow =
     [(''IPV4_SRC_ADDR'', JInt 167772161), (''IPV4_DST_ADDR'', JInt 3232235777),
      (''L4_SRC_PORT'', JInt 51000), (''L4_DST_PORT'', JInt 443),
      (''IN_BYTES'', JNaN),
      (''FIRST_SWITCHED'', JInt 1000), (''LAST_SWITCHED'', JInt 4000)]"

text \<open>
  A flow record that says IP_PROTOCOL_VERSION 4 but carries IPv6 address fields only.
\<close>

definition mislabelled_flow :: flow where
  "mislabelled_flow =
     [(''IP_PROTOCOL_VERSION'', JInt 4),
      (''IPV6_SRC_ADDR'', JInt (2 ^ 100)), (''IPV6_DST_ADDR'', JInt (2 ^ 101)),
      (''L4_SRC_PORT'', JInt 443), (''L4_DST_PORT'', JInt 51000),
      (''IN_BYTES'', JInt 1500),
      (''FIRST_SWITCHED'', JInt 1000), (''LAST_SWITCHED'', JInt 4000)]"

text \<open>
  A dump with two exports: the earlier one holds a single record of 3 MiB, the later one
  a pair of records.
\<close>

definition sample_dump :: dump where
  "sample_dump =
     [(''20'', [flow4 167772161 3232235777 51000 443 100 1000 4000,
               flow4 3232235777 167772161 443 51000 2097152 1000 4000]),
      (''10'', [flow4 167772184 3232235777 51000 80 3145728 1000 4000])]"

section \<open>The pairing as the specification words it\<close>

text \<open>
  The specification's aggregator, to be compared with \<open>step\<close>: if no flow is pending,
  store the incoming one as pending; if one is pending, construct a Connection from
  (pending, incoming) and clear the pending slot. What is done with the Connection is
  the script's \<open>on_pair\<close>.
\<close>

definition spec_step :: "'a env \<Rightarrow> string \<Rightarrow> state \<Rightarrow> flow \<Rightarrow> error + state" where
  "spec_step E timestamp st flow =
     (case pending st of
        None \<Rightarrow> Inr (st\<lparr>pending := Some flow\<rparr>)
      | Some p \<Rightarrow> on_pair E timestamp st p flow)"

fun spec_run_flows :: "'a env \<Rightarrow> string \<Rightarrow> state \<Rightarrow> flow list \<Rightarrow> error + state" where
  "spec_run_flows E timestamp st [] = Inr st"
| "spec_run_flows E timestamp st (flow # flows) =
     (case spec_step E timestamp st flow of
        Inl e \<Rightarrow> Inl e
      | Inr st' \<Rightarrow> spec_run_flows E timestamp st' flows)"

text \<open>
  The records of a batch two at a time in arrival order, (1st, 2nd), (3rd, 4th) and so
  on, and the handling of these pairs one after the other. A last record without a
  partner is the one left over.
\<close>

fun pairs :: "flow list \<Rightarrow> (flow \<times> flow) list" where
  "pairs (a # b # flows) = (a, b) # pairs flows"
| "pairs flows = []"

fun leftover :: "flow list \<Rightarrow> flow option" where
  "leftover (a # b # flows) = leftover flows"
| "leftover [a] = Some a"
| "leftover [] = None"

fun run_pairs :: "'a env \<Rightarrow> string \<Rightarrow> state \<Rightarrow> (flow \<times> flow) list \<Rightarrow> error + state" where
  "run_pairs E timestamp st [] = Inr st"
| "run_pairs E timestamp st (ab # ps) =
     (case on_pair E timestamp st (fst ab) (snd ab) of
        Inl e \<Rightarrow> Inl e
      | Inr st' \<Rightarrow> run_pairs E timestamp st' ps)"

text \<open>
  What one export prints when it is processed alone, from the initial state, and what a
  list of exports prints when each is processed alone.
\<close>

definition export_alone :: "'a env \<Rightarrow> dump \<Rightarrow> string \<Rightarrow> error + string list" where
  "export_alone E data export =
     (case run_export E data \<lparr>pending = None, printed = []\<rparr> export of
        Inl e \<Rightarrow> Inl e
      | Inr st \<Rightarrow> Inr (printed st))"

fun exports_alone :: "'a env \<Rightarrow> dump \<Rightarrow> string list \<Rightarrow> error + string list" where
  "exports_alone E data [] = Inr []"
| "exports_alone E data (export # exports) =
     (case export_alone E data export of
        Inl e \<Rightarrow> Inl e
      | Inr ls \<Rightarrow>
          (case exports_alone E data exports of
             Inl e \<Rightarrow> Inl e
           | Inr ms \<Rightarrow> Inr (ls @ ms)))"

section \<open>Facts about the construction of a Connection\<close>

lemma duration_of_ints:
  "map_of sflow ''FIRST_SWITCHED'' = Some (JInt f) \<Longrightarrow> map_of sflow ''LAST_SWITCHED'' = Some (JInt l) \<Longrightarrow>
   duration_of sflow = Inr (JInt (if l - f < 0 then (2 ^ 32 - f) + l else l - f))"
  by (simp add: duration_of_def getitem_def py_sub_def py_lt_def py_add_def)

lemma connection_of_src_duration:
  "connection_of_src E sflow = Inr c \<Longrightarrow> duration_of sflow = Inr (duration c)"
  by (auto simp: connection_of_src_def split: sum.splits)

lemma connection_of_src_fields:
  "connection_of_src E sflow = Inr c \<Longrightarrow>
   getIPs E sflow = Inr (src c, dest c) \<and> map_of sflow ''L4_SRC_PORT'' = Some (src_port c) \<and>
   map_of sflow ''L4_DST_PORT'' = Some (dest_port c) \<and> map_of sflow ''IN_BYTES'' = Some (size_c c)"
  by (auto simp: connection_of_src_def getitem_def split: sum.splits option.splits)

lemma Connection_dominant:
  "Connection E flow1 flow2 = Inr c \<Longrightarrow> dominant flow1 flow2 = Inr (sflow, dflow) \<Longrightarrow>
   connection_of_src E sflow = Inr c"
  by (simp add: Connection_def)

lemmas sample_simps =
  getitem_def flow4_def connection_of_src_def getIPs_def use_ipv4_def addr_pair_def
  sample_env_def sample_ip_address_def duration_of_def py_sub_def py_lt_def py_add_def
  Connection_def dominant_def py_ge_def

lemma use_ipv4_iff:
  "use_ipv4 flow \<longleftrightarrow>
     map_of flow ''IP_PROTOCOL_VERSION'' = Some (JInt 4) \<or> map_of flow ''IPV4_SRC_ADDR'' \<noteq> None \<or>
     map_of flow ''IPV4_DST_ADDR'' \<noteq> None"
  by (auto simp: use_ipv4_def)

lemma addr_pair_Inr_iff:
  "(\<exists>p. addr_pair E flow ks kd = Inr p) \<longleftrightarrow>
   (\<exists>vs vd s d. map_of flow ks = Some vs \<and> ip_address E vs = Inr s \<and>
                map_of flow kd = Some vd \<and> ip_address E vd = Inr d)"
  by (auto simp: addr_pair_def getitem_def split: option.splits sum.splits)

lemma addr_pair_src_missing:
  "map_of flow ks = None \<Longrightarrow> addr_pair E flow ks kd = Inl (KeyError ks)"
  by (simp add: addr_pair_def getitem_def)

lemma addr_pair_src_rejected:
  "map_of flow ks = Some vs \<Longrightarrow> ip_address E vs = Inl e \<Longrightarrow> addr_pair E flow ks kd = Inl e"
  by (simp add: addr_pair_def getitem_def)

lemma addr_pair_dst_rejected:
  "map_of flow ks = Some vs \<Longrightarrow> ip_address E vs = Inr s \<Longrightarrow> map_of flow kd = Some vd \<Longrightarrow>
   ip_address E vd = Inl e \<Longrightarrow> addr_pair E flow ks kd = Inl e"
  by (simp add: addr_pair_def getitem_def)

lemma addr_pair_dst_missing:
  "map_of flow ks = Some vs \<Longrightarrow> ip_address E vs = Inr s \<Longrightarrow> map_of flow kd = None \<Longrightarrow>
   addr_pair E flow ks kd = Inl (KeyError kd)"
  by (simp add: addr_pair_def getitem_def)

lemma addr_pair_outcomes:
  "((\<exists>p. addr_pair E flow ks kd = Inr p) \<longleftrightarrow>
      (\<exists>vs vd s d. map_of flow ks = Some vs \<and> ip_address E vs = Inr s \<and>
                   map_of flow kd = Some vd \<and> ip_address E vd = Inr d))
   \<and> (map_of flow ks = None \<longrightarrow> addr_pair E flow ks kd = Inl (KeyError ks))
   \<and> (\<forall>vs e. map_of flow ks = Some vs \<and> ip_address E vs = Inl e \<longrightarrow>
          addr_pair E flow ks kd = Inl e)
   \<and> (\<forall>vs s. map_of flow ks = Some vs \<and> ip_address E vs = Inr s \<and> map_of flow kd = None \<longrightarrow>
          addr_pair E flow ks kd = Inl (KeyError kd))
   \<and> (\<forall>vs s vd e. map_of flow ks = Some vs \<and> ip_address E vs = Inr s \<and>
          map_of flow kd = Some vd \<and> ip_address E vd = Inl e \<longrightarrow>
          addr_pair E flow ks kd = Inl e)"
  using addr_pair_Inr_iff [of E flow ks kd] addr_pair_src_missing [of flow ks E kd]
    addr_pair_src_rejected [of flow ks _ E _ kd] addr_pair_dst_missing [of flow ks _ E _ kd]
    addr_pair_dst_rejected [of flow ks _ E _ kd]
  by blast

lemma py_ge_swap:
  "a \<noteq> b \<Longrightarrow> a \<noteq> JNaN \<Longrightarrow> b \<noteq> JNaN \<Longrightarrow>
   py_ge b a = (case py_ge a b of Inl e \<Rightarrow> Inl e | Inr t \<Rightarrow> Inr (\<not> t))"
  by (cases a; cases b) (auto simp: py_ge_def)

lemma dominant_swap:
  assumes "map_of flow1 ''IN_BYTES'' = Some a" and "map_of flow2 ''IN_BYTES'' = Some b" and "a \<noteq> b"
    and "a \<noteq> JNaN" and "b \<noteq> JNaN"
  shows "(case dominant flow2 flow1 of Inl e \<Rightarrow> Inl e | Inr sd \<Rightarrow> Inr (fst sd))
       = (case dominant flow1 flow2 of Inl e \<Rightarrow> Inl e | Inr sd \<Rightarrow> Inr (fst sd))"
  using assms by (simp add: dominant_def getitem_def py_ge_swap [of a b] split: sum.splits)

lemma Connection_via_src:
  "Connection E flow1 flow2 =
     (case (case dominant flow1 flow2 of Inl e \<Rightarrow> Inl e | Inr sd \<Rightarrow> Inr (fst sd)) of
        Inl e \<Rightarrow> Inl e | Inr sflow \<Rightarrow> connection_of_src E sflow)"
  by (simp add: Connection_def split: sum.splits)

text \<open>Integers below \<open>2^53\<close> are doubles: \<open>to_double\<close> returns them unchanged.\<close>

lemma bit_length_le: "n < 2 ^ k \<Longrightarrow> bit_length n \<le> k"
proof (induction k arbitrary: n)
  case 0
  then show ?case by (simp add: bit_length.simps)
next
  case (Suc k)
  show ?case
  proof (cases "n = 0")
    case True
    then show ?thesis by (simp add: bit_length.simps)
  next
    case False
    from Suc.prems have "n div 2 < 2 ^ k" by simp
    then have "bit_length (n div 2) \<le> k" by (rule Suc.IH)
    with False show ?thesis by (subst bit_length.simps) simp
  qed
qed

lemma round_half_even_of_int: "round_half_even (of_int m) = m"
  by (simp add: round_half_even_def)

lemma to_double_exact:
  assumes "0 < n" and "n < 2 ^ 53"
  shows "to_double (of_int n) = Inr (of_int n)"
proof -
  let ?x = "of_int n :: rat"
  have x1: "1 \<le> ?x" using assms(1) by simp
  have "nat n < 2 ^ 53" using assms by (simp add: nat_less_iff)
  then have "bit_length (nat n) \<le> 53" by (rule bit_length_le)
  then have il: "ilog2 ?x \<le> 52"
    using x1 by (simp add: ilog2_def)
  define e where "e = max (ilog2 ?x - 52) (- 1074)"
  have e0: "e \<le> 0" using il by (simp add: e_def)
  define k where "k = nat (- e)"
  have p: "pow2 e = 1 / 2 ^ k"
    using e0 by (cases "e = 0") (simp_all add: pow2_def k_def)
  have "?x / pow2 e = of_int (n * 2 ^ k)"
    by (simp add: p)
  then have r: "round_half_even (?x / pow2 e) = n * 2 ^ k"
    by (simp only: round_half_even_of_int)
  have r': "round_half_even (?x * 2 ^ k) = n * 2 ^ k"
    using round_half_even_of_int [of "n * 2 ^ k"] by simp
  have v: "of_int (round_half_even (?x / pow2 e)) * pow2 e = ?x"
    by (simp only: r) (simp add: p)
  have "(of_int n :: rat) < 2 ^ 53" using assms(2) by (metis of_int_less_iff of_int_numeral of_int_power)
  also have "\<dots> < 2 ^ 1024" by simp
  finally have small: "\<not> (2 :: rat) ^ 1024 \<le> ?x" by simp
  have ax: "\<bar>?x\<bar> = ?x" using assms(1) by simp
  show ?thesis
    using assms(1) small
    by (simp only: to_double_def Let_def ax e_def [symmetric] v) simp
qed

lemma human_size_kib:
  assumes "size_c c = JInt n" and "1024 \<le> n" and "n < 1024 ^ 2"
  shows "human_size c = Inr (fmt_2f (of_int n / 1024) @ ''K'')"
proof -
  have d: "to_double (of_int n) = Inr (of_int n)"
    using assms by (intro to_double_exact) simp_all
  have "(of_int n :: rat) < 1024 ^ 2"
    using assms(3) by (metis of_int_less_iff of_int_numeral of_int_power)
  then have "(of_int n :: rat) / 1024 < 1024" by simp
  with assms d show ?thesis
    by (simp add: human_size_def)
qed

lemma human_duration_sec:
  "duration c = JInt ms \<Longrightarrow> ms div 1000 < 60 \<Longrightarrow>
   human_duration c = Inr (str_int (ms div 1000) @ '' sec'')"
  by (simp add: human_duration_def)

lemma fmt_2f_2: "fmt_2f (of_int 2048 / 1024) = ''2.00''"
  by (simp add: fmt_2f_def round_half_even_def str_nat.simps)

lemma str_int_3: "str_int (3000 div 1000) = ''3''"
  by (simp add: str_int_def str_nat.simps)

text \<open>The loop body on a pair, and the summary line of a sample Connection.\<close>

lemma summary_line_Inr:
  "service E con = Inr sv \<Longrightarrow> human_size con = Inr sz \<Longrightarrow> human_duration con = Inr du \<Longrightarrow>
   \<exists>line. summary_line E ts con = Inr line"
  by (simp add: summary_line_def)

lemma summary_line_Inl:
  "service E con = Inl e \<or> human_size con = Inl e \<or> human_duration con = Inl e \<Longrightarrow>
   \<exists>e'. summary_line E ts con = Inl e'"
  by (auto simp: summary_line_def split: sum.splits)

lemma on_pair_cases:
  assumes "Connection E p flow = Inr con" and "size_c con = JInt n"
  shows "on_pair E ts st p flow =
     (if 1024 ^ 2 < n
      then (case summary_line E ts con of
              Inl e \<Rightarrow> Inl e
            | Inr line \<Rightarrow> Inr \<lparr>pending = None, printed = printed st @ [line]\<rparr>)
      else Inr (st\<lparr>pending := None\<rparr>))"
  using assms by (simp add: on_pair_def py_gt_def)

lemma upper_https: "upper ''https'' = ''HTTPS''"
  by (simp add: upper_def)

lemma sample_human_size: "human_size \<lparr>src = IPv4Address 3232235777, dest = IPv4Address 167772161,
            src_port = JInt 443, dest_port = JInt 51000, size_c = JInt 2097152,
            duration = JInt 3000\<rparr> = Inr ''2.00M''"
proof -
  have "to_double 2097152 = Inr 2097152"
    using to_double_exact [of 2097152] by simp
  then show ?thesis
    by (simp add: human_size_def fmt_2f_def round_half_even_def str_nat.simps)
qed

lemma sample_human_duration: "human_duration \<lparr>src = IPv4Address 3232235777, dest = IPv4Address 167772161,
            src_port = JInt 443, dest_port = JInt 51000, size_c = JInt 2097152,
            duration = JInt 3000\<rparr> = Inr ''3 sec''"
  by (simp add: human_duration_def str_int_def str_nat.simps)

lemma sample_addr_strs: "sample_addr_str (IPv4Address 3232235777) = ''192.168.1.1''" "sample_addr_str (IPv4Address 167772161) = ''10.0.0.1''"
  by (simp_all add: sample_addr_str_def str_nat.simps upt_rec)

lemma sample_summary_line: "summary_line sample_env ''20'' \<lparr>src = IPv4Address 3232235777, dest = IPv4Address 167772161,
            src_port = JInt 443, dest_port = JInt 51000, size_c = JInt 2097152,
            duration = JInt 3000\<rparr> = Inr ''20: HTTPS   | 2.00M    | 3 sec     | 192.168.1.1 (192.168.1.1) to 10.0.0.1 (10.0.0.1)''"
  by (simp add: summary_line_def sample_human_size sample_human_duration service_def hostnames_def ljust_def upper_https
      sample_env_def sample_getservbyport_def sample_addr_strs eval_nat_numeral)

text \<open>
  The loop: what a run prints is appended to what was printed before, the state after a
  pair has no pending flow, and on non-empty records the loop body is the
  specification's step.
\<close>

lemma on_pair_pending_irrelevant:
  "on_pair E ts (st\<lparr>pending := x\<rparr>) p flow = on_pair E ts st p flow"
  by (simp add: on_pair_def split: sum.splits)

lemma on_pair_clears:
  "on_pair E ts st p flow = Inr st' \<Longrightarrow> pending st' = None"
  by (auto simp: on_pair_def split: sum.splits if_splits)

lemma on_pair_printed:
  "on_pair E ts st p flow =
     (case on_pair E ts (st\<lparr>printed := []\<rparr>) p flow of
        Inl e \<Rightarrow> Inl e
      | Inr s \<Rightarrow> Inr (s\<lparr>printed := printed st @ printed s\<rparr>))"
  by (simp add: on_pair_def split: sum.splits)

lemma step_printed:
  "step E ts st flow =
     (case step E ts (st\<lparr>printed := []\<rparr>) flow of
        Inl e \<Rightarrow> Inl e
      | Inr s \<Rightarrow> Inr (s\<lparr>printed := printed st @ printed s\<rparr>))"
proof (cases "pending st")
  case None
  then show ?thesis by (simp add: step_def not_pending_def)
next
  case (Some p)
  show ?thesis
  proof (cases "p = []")
    case True
    with Some show ?thesis by (simp add: step_def not_pending_def)
  next
    case False
    with Some show ?thesis
      using on_pair_printed [of E ts st p flow] by (simp add: step_def not_pending_def)
  qed
qed

lemma run_flows_printed:
  "run_flows E ts st flows =
     (case run_flows E ts (st\<lparr>printed := []\<rparr>) flows of
        Inl e \<Rightarrow> Inl e
      | Inr s \<Rightarrow> Inr (s\<lparr>printed := printed st @ printed s\<rparr>))"
proof (induction flows arbitrary: st)
  case Nil
  show ?case by simp
next
  case (Cons flow flows)
  show ?case
  proof (cases "step E ts (st\<lparr>printed := []\<rparr>) flow")
    case (Inl e)
    then have "step E ts st flow = Inl e"
      using step_printed [of E ts st flow] by simp
    with Inl show ?thesis by simp
  next
    case (Inr s0)
    then have s: "step E ts st flow = Inr (s0\<lparr>printed := printed st @ printed s0\<rparr>)"
      using step_printed [of E ts st flow] by simp
    have 1: "run_flows E ts (s0\<lparr>printed := printed st @ printed s0\<rparr>) flows =
       (case run_flows E ts (s0\<lparr>printed := []\<rparr>) flows of
          Inl e \<Rightarrow> Inl e
        | Inr s \<Rightarrow> Inr (s\<lparr>printed := (printed st @ printed s0) @ printed s\<rparr>))"
      using Cons.IH [of "s0\<lparr>printed := printed st @ printed s0\<rparr>"]
      by (simp split: sum.splits)
    have 2: "run_flows E ts s0 flows =
       (case run_flows E ts (s0\<lparr>printed := []\<rparr>) flows of
          Inl e \<Rightarrow> Inl e
        | Inr s \<Rightarrow> Inr (s\<lparr>printed := printed s0 @ printed s\<rparr>))"
      using Cons.IH [of s0] by simp
    show ?thesis
      by (simp add: s Inr 1 2 split: sum.splits)
  qed
qed

lemma run_export_printed:
  "run_export E data st export =
     (case run_export E data \<lparr>pending = None, printed = []\<rparr> export of
        Inl e \<Rightarrow> Inl e
      | Inr s \<Rightarrow> Inr (s\<lparr>printed := printed st @ printed s\<rparr>))"
proof -
  have eq: "st\<lparr>pending := None, printed := []\<rparr> = \<lparr>pending = None, printed = []\<rparr>"
    by simp
  show ?thesis
    using run_flows_printed [of E _ "st\<lparr>pending := None\<rparr>"]
    by (simp add: run_export_def eq split: sum.splits option.splits)
qed

lemma run_export_pending_irrelevant:
  "run_export E data (st\<lparr>pending := p\<rparr>) export = run_export E data st export"
  by (simp add: run_export_def split: sum.splits option.splits)

lemma run_exports_printed:
  "(case run_exports E data st exports of Inl e \<Rightarrow> Inl e | Inr s \<Rightarrow> Inr (printed s))
   = (case exports_alone E data exports of Inl e \<Rightarrow> Inl e | Inr ls \<Rightarrow> Inr (printed st @ ls))"
proof (induction exports arbitrary: st)
  case Nil
  show ?case by simp
next
  case (Cons export exports)
  show ?case
  proof (cases "run_export E data \<lparr>pending = None, printed = []\<rparr> export")
    case (Inl e)
    then have "run_export E data st export = Inl e"
      using run_export_printed [of E data st export] by simp
    with Inl show ?thesis by (simp add: export_alone_def)
  next
    case (Inr s0)
    then have s: "run_export E data st export = Inr (s0\<lparr>printed := printed st @ printed s0\<rparr>)"
      using run_export_printed [of E data st export] by simp
    show ?thesis
      using Cons.IH [of "s0\<lparr>printed := printed st @ printed s0\<rparr>"]
      by (simp add: s Inr export_alone_def split: sum.splits)
  qed
qed

lemma step_is_spec_step:
  "pending st \<noteq> Some [] \<Longrightarrow> step E ts st flow = spec_step E ts st flow"
  by (cases "pending st") (simp_all add: step_def spec_step_def not_pending_def)

lemma spec_step_pending:
  assumes "spec_step E ts st flow = Inr st'" and "flow \<noteq> []"
  shows "pending st' \<noteq> Some []"
proof (cases "pending st")
  case None
  with assms show ?thesis by (auto simp: spec_step_def)
next
  case (Some p)
  with assms(1) have "on_pair E ts st p flow = Inr st'" by (simp add: spec_step_def)
  then have "pending st' = None" by (rule on_pair_clears)
  then show ?thesis by simp
qed

lemma run_flows_is_spec:
  "\<forall>f \<in> set flows. f \<noteq> [] \<Longrightarrow> pending st \<noteq> Some [] \<Longrightarrow>
   run_flows E ts st flows = spec_run_flows E ts st flows"
proof (induction flows arbitrary: st)
  case Nil
  show ?case by simp
next
  case (Cons flow flows)
  have s: "step E ts st flow = spec_step E ts st flow"
    using Cons.prems(2) by (rule step_is_spec_step)
  show ?case
  proof (cases "spec_step E ts st flow")
    case (Inl e)
    with s show ?thesis by simp
  next
    case (Inr st')
    have "flow \<noteq> []" using Cons.prems(1) by simp
    with Inr have "pending st' \<noteq> Some []" by (rule spec_step_pending)
    moreover have "\<forall>f \<in> set flows. f \<noteq> []" using Cons.prems(1) by simp
    ultimately have "run_flows E ts st' flows = spec_run_flows E ts st' flows"
      by (rule Cons.IH [rotated])
    with s Inr show ?thesis by simp
  qed
qed

lemma spec_run_flows_pairs:
  "pending st = None \<Longrightarrow>
   spec_run_flows E ts st flows =
     (case run_pairs E ts st (pairs flows) of
        Inl e \<Rightarrow> Inl e
      | Inr s \<Rightarrow> Inr (s\<lparr>pending := leftover flows\<rparr>))"
proof (induction flows arbitrary: st rule: pairs.induct)
  case (1 a b flows)
  show ?case
  proof (cases "on_pair E ts st a b")
    case (Inl e)
    with 1(2) show ?thesis
      by (simp add: spec_step_def on_pair_pending_irrelevant)
  next
    case (Inr st')
    then have "pending st' = None" by (rule on_pair_clears)
    then have "spec_run_flows E ts st' flows =
       (case run_pairs E ts st' (pairs flows) of
          Inl e \<Rightarrow> Inl e
        | Inr s \<Rightarrow> Inr (s\<lparr>pending := leftover flows\<rparr>))"
      by (rule 1(1))
    with 1(2) Inr show ?thesis
      by (simp add: spec_step_def on_pair_pending_irrelevant split: sum.splits)
  qed
qed (simp_all add: spec_step_def)

section \<open>Duration\<close>

text \<open>
  C1. When the dominant flow of a Connection has a LAST_SWITCHED smaller than its
  FIRST_SWITCHED, the duration of the Connection is \<open>(2^32 - FIRST_SWITCHED) +
  LAST_SWITCHED\<close>. The witness runs the constructor on FIRST_SWITCHED = 4294967290 and
  LAST_SWITCHED = 5: the duration is 11.
\<close>

theorem duration_wraparound:
  assumes "dominant flow1 flow2 = Inr (sflow, dflow)"
    and "map_of sflow ''FIRST_SWITCHED'' = Some (JInt f)"
    and "map_of sflow ''LAST_SWITCHED'' = Some (JInt l)"
    and "l < f"
    and "Connection E flow1 flow2 = Inr c"
  shows "duration c = JInt ((2 ^ 32 - f) + l)"
proof -
  have "connection_of_src E sflow = Inr c"
    using assms(5) assms(1) by (rule Connection_dominant)
  then have "duration_of sflow = Inr (duration c)"
    by (rule connection_of_src_duration)
  moreover have "duration_of sflow = Inr (JInt ((2 ^ 32 - f) + l))"
    using duration_of_ints [OF assms(2) assms(3)] assms(4) by simp
  ultimately show ?thesis by simp
qed

theorem duration_wraparound_witness:
  "dominant (flow4 3232235777 167772161 443 51000 1500 4294967290 5)
            (flow4 167772161 3232235777 51000 443 500 4294967290 5)
     = Inr (flow4 3232235777 167772161 443 51000 1500 4294967290 5,
            flow4 167772161 3232235777 51000 443 500 4294967290 5)
   \<and> Connection sample_env (flow4 3232235777 167772161 443 51000 1500 4294967290 5)
            (flow4 167772161 3232235777 51000 443 500 4294967290 5)
     = Inr \<lparr>src = IPv4Address 3232235777, dest = IPv4Address 167772161,
            src_port = JInt 443, dest_port = JInt 51000, size_c = JInt 1500, duration = JInt 11\<rparr>
   \<and> duration \<lparr>src = IPv4Address 3232235777, dest = IPv4Address 167772161,
            src_port = JInt 443, dest_port = JInt 51000, size_c = JInt 1500,
            duration = JInt 11\<rparr> = JInt ((2 ^ 32 - 4294967290) + 5)"
proof -
  let ?a = "flow4 3232235777 167772161 443 51000 1500 4294967290 5"
  let ?b = "flow4 167772161 3232235777 51000 443 500 4294967290 5"
  let ?c = "\<lparr>src = IPv4Address 3232235777, dest = IPv4Address 167772161,
            src_port = JInt 443, dest_port = JInt 51000, size_c = JInt 1500, duration = JInt 11\<rparr>"
  have d: "dominant ?a ?b = Inr (?a, ?b)"
    by (simp add: dominant_def getitem_def flow4_def py_ge_def)
  have f: "map_of ?a ''FIRST_SWITCHED'' = Some (JInt 4294967290)"
    by (simp add: flow4_def)
  have l: "map_of ?a ''LAST_SWITCHED'' = Some (JInt 5)"
    by (simp add: flow4_def)
  have c: "Connection sample_env ?a ?b = Inr ?c"
    by (simp add: sample_simps)
  have "duration ?c = JInt ((2 ^ 32 - 4294967290) + 5)"
    by (rule duration_wraparound [OF d f l _ c]) simp
  with d c show ?thesis by blast
qed

text \<open>
  C5. The duration of a Connection is never negative when FIRST_SWITCHED and
  LAST_SWITCHED of its dominant flow are 32-bit unsigned values.
\<close>

theorem duration_nonnegative:
  assumes "dominant flow1 flow2 = Inr (sflow, dflow)"
    and "map_of sflow ''FIRST_SWITCHED'' = Some (JInt f)"
    and "map_of sflow ''LAST_SWITCHED'' = Some (JInt l)"
    and "0 \<le> f" and "f < 2 ^ 32" and "0 \<le> l" and "l < 2 ^ 32"
    and "Connection E flow1 flow2 = Inr c"
  shows "\<exists>d. duration c = JInt d \<and> 0 \<le> d"
proof -
  have "connection_of_src E sflow = Inr c"
    using assms(8) assms(1) by (rule Connection_dominant)
  then have "duration_of sflow = Inr (duration c)"
    by (rule connection_of_src_duration)
  then have "duration c = JInt (if l - f < 0 then (2 ^ 32 - f) + l else l - f)"
    using duration_of_ints [OF assms(2) assms(3)] by simp
  then show ?thesis
    using assms(5) assms(6) by (simp split: if_splits)
qed

theorem duration_nonnegative_witness:
  "dominant (flow4 167772161 3232235777 51000 22 100 4000000000 1000)
            (flow4 3232235777 167772161 22 51000 9000 4000000000 1000)
     = Inr (flow4 3232235777 167772161 22 51000 9000 4000000000 1000,
            flow4 167772161 3232235777 51000 22 100 4000000000 1000)
   \<and> Connection sample_env (flow4 167772161 3232235777 51000 22 100 4000000000 1000)
            (flow4 3232235777 167772161 22 51000 9000 4000000000 1000)
     = Inr \<lparr>src = IPv4Address 3232235777, dest = IPv4Address 167772161,
            src_port = JInt 22, dest_port = JInt 51000, size_c = JInt 9000,
            duration = JInt 294968296\<rparr>
   \<and> (\<exists>d. duration \<lparr>src = IPv4Address 3232235777, dest = IPv4Address 167772161,
            src_port = JInt 22, dest_port = JInt 51000, size_c = JInt 9000,
            duration = JInt 294968296\<rparr> = JInt d \<and> 0 \<le> d)"
proof -
  let ?a = "flow4 167772161 3232235777 51000 22 100 4000000000 1000"
  let ?b = "flow4 3232235777 167772161 22 51000 9000 4000000000 1000"
  let ?c = "\<lparr>src = IPv4Address 3232235777, dest = IPv4Address 167772161,
            src_port = JInt 22, dest_port = JInt 51000, size_c = JInt 9000,
            duration = JInt 294968296\<rparr>"
  have d: "dominant ?a ?b = Inr (?b, ?a)"
    by (simp add: dominant_def getitem_def flow4_def py_ge_def)
  have f: "map_of ?b ''FIRST_SWITCHED'' = Some (JInt 4000000000)"
    by (simp add: flow4_def)
  have l: "map_of ?b ''LAST_SWITCHED'' = Some (JInt 1000)"
    by (simp add: flow4_def)
  have c: "Connection sample_env ?a ?b = Inr ?c"
    by (simp add: sample_simps)
  have "\<exists>d. duration ?c = JInt d \<and> 0 \<le> d"
    by (rule duration_nonnegative [OF d f l _ _ _ _ c]) simp_all
  with d c show ?thesis by blast
qed

section \<open>Direction\<close>

text \<open>
  C2, as stated, fails: the two flows have distinct IN_BYTES, NaN and 5, both
  comparisons of line 48 are false, and each order of the arguments takes its second
  argument as \<^verbatim>\<open>src\<close>; the two Connections differ in addresses, ports and size.
\<close>

theorem Connection_order_counterexample:
  "map_of nan_flow ''IN_BYTES'' = Some JNaN
   \<and> map_of (flow4 3232235777 167772161 443 51000 5 1000 4000) ''IN_BYTES'' = Some (JInt 5)
   \<and> JNaN \<noteq> JInt 5
   \<and> Connection sample_env nan_flow (flow4 3232235777 167772161 443 51000 5 1000 4000)
     = Inr \<lparr>src = IPv4Address 3232235777, dest = IPv4Address 167772161,
            src_port = JInt 443, dest_port = JInt 51000, size_c = JInt 5,
            duration = JInt 3000\<rparr>
   \<and> Connection sample_env (flow4 3232235777 167772161 443 51000 5 1000 4000) nan_flow
     = Inr \<lparr>src = IPv4Address 167772161, dest = IPv4Address 3232235777,
            src_port = JInt 51000, dest_port = JInt 443, size_c = JNaN,
            duration = JInt 3000\<rparr>"
  by (simp add: sample_simps nan_flow_def)

text \<open>
  C2, amended. For two flows with distinct IN_BYTES, neither of them NaN, the Connection
  does not depend on the order of the two arguments; with integer byte counts both orders
  build it from the flow with the larger IN_BYTES, and a Connection built from a flow has
  that flow's addresses, ports and byte count. The witness takes IN_BYTES 500 and 1500:
  in both orders the source and the size are those of the 1500-byte flow.
\<close>

theorem Connection_symmetric:
  assumes "map_of flow1 ''IN_BYTES'' = Some a" and "map_of flow2 ''IN_BYTES'' = Some b" and "a \<noteq> b"
    and "a \<noteq> JNaN" and "b \<noteq> JNaN"
  shows "Connection E flow1 flow2 = Connection E flow2 flow1
    \<and> (\<forall>x y. a = JInt x \<and> b = JInt y \<longrightarrow>
          Connection E flow1 flow2 = connection_of_src E (if y < x then flow1 else flow2)
        \<and> Connection E flow2 flow1 = connection_of_src E (if y < x then flow1 else flow2))
    \<and> (\<forall>sflow c. connection_of_src E sflow = Inr c \<longrightarrow>
          getIPs E sflow = Inr (src c, dest c) \<and> map_of sflow ''L4_SRC_PORT'' = Some (src_port c) \<and>
          map_of sflow ''L4_DST_PORT'' = Some (dest_port c) \<and> map_of sflow ''IN_BYTES'' = Some (size_c c))"
proof -
  have sym: "Connection E flow1 flow2 = Connection E flow2 flow1"
    by (simp only: Connection_via_src dominant_swap [of flow1 a flow2 b, OF assms])
  have big: "Connection E flow1 flow2 = connection_of_src E (if y < x then flow1 else flow2)"
    if "a = JInt x \<and> b = JInt y" for x y
  proof -
    from that assms have "x \<noteq> y" by auto
    with that assms show ?thesis
      by (simp add: Connection_def dominant_def getitem_def py_ge_def)
  qed
  have fields: "getIPs E sflow = Inr (src c, dest c) \<and> map_of sflow ''L4_SRC_PORT'' = Some (src_port c) \<and>
          map_of sflow ''L4_DST_PORT'' = Some (dest_port c) \<and> map_of sflow ''IN_BYTES'' = Some (size_c c)"
    if "connection_of_src E sflow = Inr c" for sflow c
    using that by (rule connection_of_src_fields)
  from big sym have big': "Connection E flow2 flow1 = connection_of_src E (if y < x then flow1 else flow2)"
    if "a = JInt x \<and> b = JInt y" for x y
    using that by simp
  show ?thesis
    using sym big big' fields by blast
qed

theorem Connection_symmetric_witness:
  "map_of (flow4 167772161 3232235777 51000 80 500 1000 4000) ''IN_BYTES'' = Some (JInt 500)
   \<and> map_of (flow4 3232235777 167772161 80 51000 1500 1000 4000) ''IN_BYTES'' = Some (JInt 1500)
   \<and> JInt 500 \<noteq> JInt 1500 \<and> JInt 500 \<noteq> JNaN \<and> JInt 1500 \<noteq> JNaN
   \<and> Connection sample_env (flow4 167772161 3232235777 51000 80 500 1000 4000)
        (flow4 3232235777 167772161 80 51000 1500 1000 4000)
     = Inr \<lparr>src = IPv4Address 3232235777, dest = IPv4Address 167772161,
            src_port = JInt 80, dest_port = JInt 51000, size_c = JInt 1500, duration = JInt 3000\<rparr>
   \<and> Connection sample_env (flow4 3232235777 167772161 80 51000 1500 1000 4000)
        (flow4 167772161 3232235777 51000 80 500 1000 4000)
     = Inr \<lparr>src = IPv4Address 3232235777, dest = IPv4Address 167772161,
            src_port = JInt 80, dest_port = JInt 51000, size_c = JInt 1500, duration = JInt 3000\<rparr>"
proof -
  let ?a = "flow4 167772161 3232235777 51000 80 500 1000 4000"
  let ?b = "flow4 3232235777 167772161 80 51000 1500 1000 4000"
  have a: "map_of ?a ''IN_BYTES'' = Some (JInt 500)" and b: "map_of ?b ''IN_BYTES'' = Some (JInt 1500)"
    by (simp_all add: flow4_def)
  have ne: "JInt 500 \<noteq> JInt 1500" and na: "JInt 500 \<noteq> JNaN" and nb: "JInt 1500 \<noteq> JNaN"
    by simp_all
  have c: "connection_of_src sample_env ?b
     = Inr \<lparr>src = IPv4Address 3232235777, dest = IPv4Address 167772161,
            src_port = JInt 80, dest_port = JInt 51000, size_c = JInt 1500, duration = JInt 3000\<rparr>"
    by (simp add: sample_simps)
  from Connection_symmetric [of ?a "JInt 500" ?b "JInt 1500" sample_env, OF a b ne na nb]
  have "Connection sample_env ?a ?b = connection_of_src sample_env ?b"
    and "Connection sample_env ?b ?a = connection_of_src sample_env ?b"
    by simp_all
  with a b ne c show ?thesis by simp
qed

section \<open>Address family\<close>

text \<open>
  C3. \<open>getIPs\<close> reads the IPv4 address fields when IP_PROTOCOL_VERSION is present and
  equal to 4, or when IPV4_SRC_ADDR or IPV4_DST_ADDR is present, and the IPv6 address
  fields otherwise. A record with IPV4_SRC_ADDR and no IP_PROTOCOL_VERSION is IPv4; a
  record without IPv4 address field and without version field is IPv6.
\<close>

theorem getIPs_family_selection:
  "(use_ipv4 flow \<longleftrightarrow>
      map_of flow ''IP_PROTOCOL_VERSION'' = Some (JInt 4) \<or> map_of flow ''IPV4_SRC_ADDR'' \<noteq> None \<or>
      map_of flow ''IPV4_DST_ADDR'' \<noteq> None)
   \<and> getIPs E flow =
       (if map_of flow ''IP_PROTOCOL_VERSION'' = Some (JInt 4) \<or> map_of flow ''IPV4_SRC_ADDR'' \<noteq> None \<or>
           map_of flow ''IPV4_DST_ADDR'' \<noteq> None
        then addr_pair E flow ''IPV4_SRC_ADDR'' ''IPV4_DST_ADDR''
        else addr_pair E flow ''IPV6_SRC_ADDR'' ''IPV6_DST_ADDR'')
   \<and> (map_of flow ''IPV4_SRC_ADDR'' \<noteq> None \<and> map_of flow ''IP_PROTOCOL_VERSION'' = None \<longrightarrow>
        use_ipv4 flow \<and> getIPs E flow = addr_pair E flow ''IPV4_SRC_ADDR'' ''IPV4_DST_ADDR'')
   \<and> (map_of flow ''IPV4_SRC_ADDR'' = None \<and> map_of flow ''IPV4_DST_ADDR'' = None \<and>
        map_of flow ''IP_PROTOCOL_VERSION'' = None \<longrightarrow>
        \<not> use_ipv4 flow \<and> getIPs E flow = addr_pair E flow ''IPV6_SRC_ADDR'' ''IPV6_DST_ADDR'')"
  by (simp add: getIPs_def use_ipv4_iff)

theorem getIPs_family_selection_witness:
  "map_of (flow4 3232235777 167772161 443 51000 1500 1000 4000) ''IPV4_SRC_ADDR'' \<noteq> None
   \<and> map_of (flow4 3232235777 167772161 443 51000 1500 1000 4000) ''IP_PROTOCOL_VERSION'' = None
   \<and> use_ipv4 (flow4 3232235777 167772161 443 51000 1500 1000 4000)
   \<and> getIPs sample_env (flow4 3232235777 167772161 443 51000 1500 1000 4000)
       = Inr (IPv4Address 3232235777, IPv4Address 167772161)
   \<and> map_of [(''IPV6_SRC_ADDR'', JInt (2 ^ 100)), (''IPV6_DST_ADDR'', JInt (2 ^ 101))] ''IPV4_SRC_ADDR'' = None
   \<and> map_of [(''IPV6_SRC_ADDR'', JInt (2 ^ 100)), (''IPV6_DST_ADDR'', JInt (2 ^ 101))] ''IPV4_DST_ADDR'' = None
   \<and> map_of [(''IPV6_SRC_ADDR'', JInt (2 ^ 100)), (''IPV6_DST_ADDR'', JInt (2 ^ 101))] ''IP_PROTOCOL_VERSION'' = None
   \<and> \<not> use_ipv4 [(''IPV6_SRC_ADDR'', JInt (2 ^ 100)), (''IPV6_DST_ADDR'', JInt (2 ^ 101))]
   \<and> getIPs sample_env [(''IPV6_SRC_ADDR'', JInt (2 ^ 100)), (''IPV6_DST_ADDR'', JInt (2 ^ 101))]
       = Inr (IPv6Address (2 ^ 100), IPv6Address (2 ^ 101))"
proof -
  let ?a = "flow4 3232235777 167772161 443 51000 1500 1000 4000"
  let ?b = "[(''IPV6_SRC_ADDR'', JInt (2 ^ 100)), (''IPV6_DST_ADDR'', JInt (2 ^ 101))] :: flow"
  have a1: "map_of ?a ''IPV4_SRC_ADDR'' \<noteq> None" and a2: "map_of ?a ''IP_PROTOCOL_VERSION'' = None"
    by (simp_all add: flow4_def)
  have b1: "map_of ?b ''IPV4_SRC_ADDR'' = None" and b2: "map_of ?b ''IPV4_DST_ADDR'' = None"
    and b3: "map_of ?b ''IP_PROTOCOL_VERSION'' = None"
    by simp_all
  have pa: "addr_pair sample_env ?a ''IPV4_SRC_ADDR'' ''IPV4_DST_ADDR''
              = Inr (IPv4Address 3232235777, IPv4Address 167772161)"
    by (simp add: addr_pair_def getitem_def flow4_def sample_env_def sample_ip_address_def)
  have pb: "addr_pair sample_env ?b ''IPV6_SRC_ADDR'' ''IPV6_DST_ADDR''
              = Inr (IPv6Address (2 ^ 100), IPv6Address (2 ^ 101))"
    by (simp add: addr_pair_def getitem_def sample_env_def sample_ip_address_def)
  from getIPs_family_selection [of ?a sample_env] a1 a2
  have "use_ipv4 ?a \<and> getIPs sample_env ?a = addr_pair sample_env ?a ''IPV4_SRC_ADDR'' ''IPV4_DST_ADDR''"
    by blast
  moreover from getIPs_family_selection [of ?b sample_env] b1 b2 b3
  have "\<not> use_ipv4 ?b \<and> getIPs sample_env ?b = addr_pair sample_env ?b ''IPV6_SRC_ADDR'' ''IPV6_DST_ADDR''"
    by blast
  ultimately show ?thesis
    using a1 a2 b1 b2 b3 pa pb by simp
qed

text \<open>
  C10, as stated, fails: both IPv4 keys are present in this record, and \<open>getIPs\<close>
  returns no address pair, because the source value is not an address.
\<close>

theorem getIPs_both_keys_counterexample:
  "use_ipv4 (flow4 (- 1) 167772161 443 51000 1500 1000 4000)
   \<and> map_of (flow4 (- 1) 167772161 443 51000 1500 1000 4000) ''IPV4_SRC_ADDR'' = Some (JInt (- 1))
   \<and> map_of (flow4 (- 1) 167772161 443 51000 1500 1000 4000) ''IPV4_DST_ADDR'' = Some (JInt 167772161)
   \<and> getIPs sample_env (flow4 (- 1) 167772161 443 51000 1500 1000 4000) = Inl ValueError"
  by (simp add: getIPs_def use_ipv4_def addr_pair_def getitem_def flow4_def sample_env_def
      sample_ip_address_def)

text \<open>
  C10, amended. \<open>getIPs\<close> reads the two address keys of the selected family, the source
  first, and returns an address pair exactly when both keys are present and
  \<^verbatim>\<open>ip_address\<close> accepts both values. It fails with the KeyError of the source key when
  that key is missing, and with the KeyError of the destination key when the source
  value is accepted and the destination key is missing. A present value that
  \<^verbatim>\<open>ip_address\<close> rejects makes it fail with the error that \<^verbatim>\<open>ip_address\<close> raised, for
  the source value whatever the destination is, for the destination value when the
  source value is accepted. A record with IP_PROTOCOL_VERSION 4 and no IPV4_SRC_ADDR
  makes the construction of a Connection fail with that KeyError when it is the dominant
  flow.
\<close>

theorem getIPs_requires_both_keys:
  "(use_ipv4 flow \<longrightarrow>
      ((\<exists>p. getIPs E flow = Inr p) \<longleftrightarrow>
         (\<exists>vs vd s d. map_of flow ''IPV4_SRC_ADDR'' = Some vs \<and> ip_address E vs = Inr s \<and>
                      map_of flow ''IPV4_DST_ADDR'' = Some vd \<and> ip_address E vd = Inr d))
      \<and> (map_of flow ''IPV4_SRC_ADDR'' = None \<longrightarrow> getIPs E flow = Inl (KeyError ''IPV4_SRC_ADDR''))
      \<and> (\<forall>vs e. map_of flow ''IPV4_SRC_ADDR'' = Some vs \<and> ip_address E vs = Inl e \<longrightarrow>
                 getIPs E flow = Inl e)
      \<and> (\<forall>vs s. map_of flow ''IPV4_SRC_ADDR'' = Some vs \<and> ip_address E vs = Inr s \<and>
                 map_of flow ''IPV4_DST_ADDR'' = None \<longrightarrow>
                 getIPs E flow = Inl (KeyError ''IPV4_DST_ADDR''))
      \<and> (\<forall>vs s vd e. map_of flow ''IPV4_SRC_ADDR'' = Some vs \<and> ip_address E vs = Inr s \<and>
                 map_of flow ''IPV4_DST_ADDR'' = Some vd \<and> ip_address E vd = Inl e \<longrightarrow>
                 getIPs E flow = Inl e))
   \<and> (\<not> use_ipv4 flow \<longrightarrow>
      ((\<exists>p. getIPs E flow = Inr p) \<longleftrightarrow>
         (\<exists>vs vd s d. map_of flow ''IPV6_SRC_ADDR'' = Some vs \<and> ip_address E vs = Inr s \<and>
                      map_of flow ''IPV6_DST_ADDR'' = Some vd \<and> ip_address E vd = Inr d))
      \<and> (map_of flow ''IPV6_SRC_ADDR'' = None \<longrightarrow> getIPs E flow = Inl (KeyError ''IPV6_SRC_ADDR''))
      \<and> (\<forall>vs e. map_of flow ''IPV6_SRC_ADDR'' = Some vs \<and> ip_address E vs = Inl e \<longrightarrow>
                 getIPs E flow = Inl e)
      \<and> (\<forall>vs s. map_of flow ''IPV6_SRC_ADDR'' = Some vs \<and> ip_address E vs = Inr s \<and>
                 map_of flow ''IPV6_DST_ADDR'' = None \<longrightarrow>
                 getIPs E flow = Inl (KeyError ''IPV6_DST_ADDR''))
      \<and> (\<forall>vs s vd e. map_of flow ''IPV6_SRC_ADDR'' = Some vs \<and> ip_address E vs = Inr s \<and>
                 map_of flow ''IPV6_DST_ADDR'' = Some vd \<and> ip_address E vd = Inl e \<longrightarrow>
                 getIPs E flow = Inl e))
   \<and> (map_of flow ''IP_PROTOCOL_VERSION'' = Some (JInt 4) \<and> map_of flow ''IPV4_SRC_ADDR'' = None \<longrightarrow>
        (\<forall>flow2. dominant flow flow2 = Inr (flow, flow2) \<longrightarrow>
           Connection E flow flow2 = Inl (KeyError ''IPV4_SRC_ADDR'')))"
proof -
  have v4: "
      ((\<exists>p. getIPs E flow = Inr p) \<longleftrightarrow>
         (\<exists>vs vd s d. map_of flow ''IPV4_SRC_ADDR'' = Some vs \<and> ip_address E vs = Inr s \<and>
                      map_of flow ''IPV4_DST_ADDR'' = Some vd \<and> ip_address E vd = Inr d))
      \<and> (map_of flow ''IPV4_SRC_ADDR'' = None \<longrightarrow> getIPs E flow = Inl (KeyError ''IPV4_SRC_ADDR''))
      \<and> (\<forall>vs e. map_of flow ''IPV4_SRC_ADDR'' = Some vs \<and> ip_address E vs = Inl e \<longrightarrow>
                 getIPs E flow = Inl e)
      \<and> (\<forall>vs s. map_of flow ''IPV4_SRC_ADDR'' = Some vs \<and> ip_address E vs = Inr s \<and>
                 map_of flow ''IPV4_DST_ADDR'' = None \<longrightarrow>
                 getIPs E flow = Inl (KeyError ''IPV4_DST_ADDR''))
      \<and> (\<forall>vs s vd e. map_of flow ''IPV4_SRC_ADDR'' = Some vs \<and> ip_address E vs = Inr s \<and>
                 map_of flow ''IPV4_DST_ADDR'' = Some vd \<and> ip_address E vd = Inl e \<longrightarrow>
                 getIPs E flow = Inl e)"
    if "use_ipv4 flow"
  proof -
    from that have g: "getIPs E flow = addr_pair E flow ''IPV4_SRC_ADDR'' ''IPV4_DST_ADDR''"
      by (simp add: getIPs_def)
    show ?thesis
      unfolding g by (rule addr_pair_outcomes)
  qed
  have v6: "
      ((\<exists>p. getIPs E flow = Inr p) \<longleftrightarrow>
         (\<exists>vs vd s d. map_of flow ''IPV6_SRC_ADDR'' = Some vs \<and> ip_address E vs = Inr s \<and>
                      map_of flow ''IPV6_DST_ADDR'' = Some vd \<and> ip_address E vd = Inr d))
      \<and> (map_of flow ''IPV6_SRC_ADDR'' = None \<longrightarrow> getIPs E flow = Inl (KeyError ''IPV6_SRC_ADDR''))
      \<and> (\<forall>vs e. map_of flow ''IPV6_SRC_ADDR'' = Some vs \<and> ip_address E vs = Inl e \<longrightarrow>
                 getIPs E flow = Inl e)
      \<and> (\<forall>vs s. map_of flow ''IPV6_SRC_ADDR'' = Some vs \<and> ip_address E vs = Inr s \<and>
                 map_of flow ''IPV6_DST_ADDR'' = None \<longrightarrow>
                 getIPs E flow = Inl (KeyError ''IPV6_DST_ADDR''))
      \<and> (\<forall>vs s vd e. map_of flow ''IPV6_SRC_ADDR'' = Some vs \<and> ip_address E vs = Inr s \<and>
                 map_of flow ''IPV6_DST_ADDR'' = Some vd \<and> ip_address E vd = Inl e \<longrightarrow>
                 getIPs E flow = Inl e)"
    if "\<not> use_ipv4 flow"
  proof -
    from that have g: "getIPs E flow = addr_pair E flow ''IPV6_SRC_ADDR'' ''IPV6_DST_ADDR''"
      by (simp add: getIPs_def)
    show ?thesis
      unfolding g by (rule addr_pair_outcomes)
  qed
  have con: "\<forall>flow2. dominant flow flow2 = Inr (flow, flow2) \<longrightarrow>
           Connection E flow flow2 = Inl (KeyError ''IPV4_SRC_ADDR'')"
    if a: "map_of flow ''IP_PROTOCOL_VERSION'' = Some (JInt 4) \<and> map_of flow ''IPV4_SRC_ADDR'' = None"
  proof -
    from a have "getIPs E flow = Inl (KeyError ''IPV4_SRC_ADDR'')"
      by (simp add: getIPs_def use_ipv4_def addr_pair_src_missing)
    then show ?thesis
      by (simp add: Connection_def connection_of_src_def)
  qed
  from v4 v6 con show ?thesis by blast
qed

theorem getIPs_requires_both_keys_witness:
  "use_ipv4 mislabelled_flow
   \<and> map_of mislabelled_flow ''IP_PROTOCOL_VERSION'' = Some (JInt 4)
   \<and> map_of mislabelled_flow ''IPV4_SRC_ADDR'' = None
   \<and> getIPs sample_env mislabelled_flow = Inl (KeyError ''IPV4_SRC_ADDR'')
   \<and> dominant mislabelled_flow (flow4 167772161 3232235777 51000 443 500 1000 4000)
       = Inr (mislabelled_flow, flow4 167772161 3232235777 51000 443 500 1000 4000)
   \<and> Connection sample_env mislabelled_flow (flow4 167772161 3232235777 51000 443 500 1000 4000)
       = Inl (KeyError ''IPV4_SRC_ADDR'')
   \<and> use_ipv4 (flow4 167772161 3232235777 51000 443 500 1000 4000)
   \<and> (\<exists>p. getIPs sample_env (flow4 167772161 3232235777 51000 443 500 1000 4000) = Inr p)
   \<and> use_ipv4 (flow4 167772161 (- 5) 51000 443 500 1000 4000)
   \<and> map_of (flow4 167772161 (- 5) 51000 443 500 1000 4000) ''IPV4_SRC_ADDR''
       = Some (JInt 167772161)
   \<and> ip_address sample_env (JInt 167772161) = Inr (IPv4Address 167772161)
   \<and> map_of (flow4 167772161 (- 5) 51000 443 500 1000 4000) ''IPV4_DST_ADDR'' = Some (JInt (- 5))
   \<and> ip_address sample_env (JInt (- 5)) = Inl ValueError
   \<and> getIPs sample_env (flow4 167772161 (- 5) 51000 443 500 1000 4000) = Inl ValueError"
proof -
  let ?g = "flow4 167772161 3232235777 51000 443 500 1000 4000"
  let ?r = "flow4 167772161 (- 5) 51000 443 500 1000 4000"
  have u: "use_ipv4 mislabelled_flow"
    by (simp add: use_ipv4_def mislabelled_flow_def)
  have v: "map_of mislabelled_flow ''IP_PROTOCOL_VERSION'' = Some (JInt 4)"
    and n: "map_of mislabelled_flow ''IPV4_SRC_ADDR'' = None"
    by (simp_all add: mislabelled_flow_def)
  have d: "dominant mislabelled_flow ?g = Inr (mislabelled_flow, ?g)"
    by (simp add: dominant_def getitem_def py_ge_def mislabelled_flow_def flow4_def)
  have ug: "use_ipv4 ?g" and ur: "use_ipv4 ?r"
    by (simp_all add: use_ipv4_def flow4_def)
  have keys: "\<exists>vs vd s d. map_of ?g ''IPV4_SRC_ADDR'' = Some vs \<and> ip_address sample_env vs = Inr s \<and>
                map_of ?g ''IPV4_DST_ADDR'' = Some vd \<and> ip_address sample_env vd = Inr d"
    by (simp add: flow4_def sample_env_def sample_ip_address_def)
  have rs: "map_of ?r ''IPV4_SRC_ADDR'' = Some (JInt 167772161)"
    and rd: "map_of ?r ''IPV4_DST_ADDR'' = Some (JInt (- 5))"
    by (simp_all add: flow4_def)
  have ok: "ip_address sample_env (JInt 167772161) = Inr (IPv4Address 167772161)"
    and bad: "ip_address sample_env (JInt (- 5)) = Inl ValueError"
    by (simp_all add: sample_env_def sample_ip_address_def)
  note mis = getIPs_requires_both_keys [of mislabelled_flow sample_env]
  note good = getIPs_requires_both_keys [of ?g sample_env]
  note rej = getIPs_requires_both_keys [of ?r sample_env]
  from mis u n have 1: "getIPs sample_env mislabelled_flow = Inl (KeyError ''IPV4_SRC_ADDR'')"
    by blast
  from mis v n d
  have 2: "Connection sample_env mislabelled_flow ?g = Inl (KeyError ''IPV4_SRC_ADDR'')"
    by blast
  from good ug keys have 3: "\<exists>p. getIPs sample_env ?g = Inr p"
    by blast
  from rej ur rs rd ok bad have 4: "getIPs sample_env ?r = Inl ValueError"
    by blast
  from u v n d ug ur rs rd ok bad 1 2 3 4 show ?thesis
    by blast
qed

section \<open>Presentation\<close>

text \<open>
  C7. A Connection whose dominant flow has IN_BYTES 2048, FIRST_SWITCHED 1000 and
  LAST_SWITCHED 4000 has the size string "2.00K" and the duration string "3 sec". The
  rules behind it hold for every Connection: a size of \<open>n\<close> bytes from 1024 up to, not
  including, \<open>1024^2\<close> is printed as \<open>n / 1024\<close> with two decimals and the letter K,
  and a duration of \<open>ms\<close> milliseconds with less than 60 whole seconds as the floor of
  \<open>ms / 1000\<close>, followed by " sec".
\<close>

theorem human_strings_end_to_end:
  "(dominant flow1 flow2 = Inr (sflow, dflow) \<and>
    map_of sflow ''IN_BYTES'' = Some (JInt 2048) \<and>
    map_of sflow ''FIRST_SWITCHED'' = Some (JInt 1000) \<and>
    map_of sflow ''LAST_SWITCHED'' = Some (JInt 4000) \<and>
    Connection E flow1 flow2 = Inr c \<longrightarrow>
      human_size c = Inr ''2.00K'' \<and> human_duration c = Inr ''3 sec'')
   \<and> (size_c k = JInt n \<and> 1024 \<le> n \<and> n < 1024 ^ 2 \<longrightarrow>
        human_size k = Inr (fmt_2f (of_int n / 1024) @ ''K''))
   \<and> (duration k = JInt ms \<and> ms div 1000 < 60 \<longrightarrow>
        human_duration k = Inr (str_int (ms div 1000) @ '' sec''))
   \<and> fmt_2f (of_int 2048 / 1024) = ''2.00'' \<and> str_int (3000 div 1000) = ''3''"
proof -
  have inst: "human_size c = Inr ''2.00K'' \<and> human_duration c = Inr ''3 sec''"
    if d: "dominant flow1 flow2 = Inr (sflow, dflow)"
      and n: "map_of sflow ''IN_BYTES'' = Some (JInt 2048)"
      and f: "map_of sflow ''FIRST_SWITCHED'' = Some (JInt 1000)"
      and l: "map_of sflow ''LAST_SWITCHED'' = Some (JInt 4000)"
      and c: "Connection E flow1 flow2 = Inr c"
  proof -
    have cs: "connection_of_src E sflow = Inr c"
      using c d by (rule Connection_dominant)
    then have sz: "size_c c = JInt 2048"
      using connection_of_src_fields [OF cs] n by simp
    have "duration_of sflow = Inr (duration c)"
      using cs by (rule connection_of_src_duration)
    then have du: "duration c = JInt 3000"
      using duration_of_ints [OF f l] by simp
    have "human_size c = Inr (fmt_2f (of_int 2048 / 1024) @ ''K'')"
      using sz by (rule human_size_kib) simp_all
    then have hs: "human_size c = Inr ''2.00K''"
      by (simp only: fmt_2f_2) simp
    have "human_duration c = Inr (str_int (3000 div 1000) @ '' sec'')"
      using du by (rule human_duration_sec) simp
    then have hd: "human_duration c = Inr ''3 sec''"
      by (simp only: str_int_3) simp
    from hs hd show ?thesis by simp
  qed
  have kib: "human_size k = Inr (fmt_2f (of_int n / 1024) @ ''K'')"
    if "size_c k = JInt n \<and> 1024 \<le> n \<and> n < 1024 ^ 2"
    using that by (intro human_size_kib) simp_all
  have sec: "human_duration k = Inr (str_int (ms div 1000) @ '' sec'')"
    if "duration k = JInt ms \<and> ms div 1000 < 60"
    using that by (intro human_duration_sec) simp_all
  show ?thesis
    using inst kib sec fmt_2f_2 str_int_3 by blast
qed

theorem human_strings_end_to_end_witness:
  "dominant (flow4 167772161 3232235777 51000 443 100 1000 4000)
            (flow4 3232235777 167772161 443 51000 2048 1000 4000)
     = Inr (flow4 3232235777 167772161 443 51000 2048 1000 4000,
            flow4 167772161 3232235777 51000 443 100 1000 4000)
   \<and> Connection sample_env (flow4 167772161 3232235777 51000 443 100 1000 4000)
            (flow4 3232235777 167772161 443 51000 2048 1000 4000)
     = Inr \<lparr>src = IPv4Address 3232235777, dest = IPv4Address 167772161,
            src_port = JInt 443, dest_port = JInt 51000, size_c = JInt 2048, duration = JInt 3000\<rparr>
   \<and> human_size \<lparr>src = IPv4Address 3232235777, dest = IPv4Address 167772161,
            src_port = JInt 443, dest_port = JInt 51000, size_c = JInt 2048,
            duration = JInt 3000\<rparr> = Inr ''2.00K''
   \<and> human_duration \<lparr>src = IPv4Address 3232235777, dest = IPv4Address 167772161,
            src_port = JInt 443, dest_port = JInt 51000, size_c = JInt 2048,
            duration = JInt 3000\<rparr> = Inr ''3 sec''
   \<and> human_size \<lparr>src = IPv4Address 3232235777, dest = IPv4Address 167772161,
            src_port = JInt 443, dest_port = JInt 51000, size_c = JInt 1536,
            duration = JInt 59999\<rparr> = Inr ''1.50K''
   \<and> human_duration \<lparr>src = IPv4Address 3232235777, dest = IPv4Address 167772161,
            src_port = JInt 443, dest_port = JInt 51000, size_c = JInt 1536,
            duration = JInt 59999\<rparr> = Inr ''59 sec''"
proof -
  let ?a = "flow4 167772161 3232235777 51000 443 100 1000 4000"
  let ?b = "flow4 3232235777 167772161 443 51000 2048 1000 4000"
  let ?k = "\<lparr>src = IPv4Address 3232235777, dest = IPv4Address 167772161,
            src_port = JInt 443, dest_port = JInt 51000, size_c = JInt 1536,
            duration = JInt 59999\<rparr>"
  let ?c = "\<lparr>src = IPv4Address 3232235777, dest = IPv4Address 167772161,
            src_port = JInt 443, dest_port = JInt 51000, size_c = JInt 2048, duration = JInt 3000\<rparr>"
  have d: "dominant ?a ?b = Inr (?b, ?a)"
    by (simp add: dominant_def getitem_def flow4_def py_ge_def)
  have n: "map_of ?b ''IN_BYTES'' = Some (JInt 2048)"
    and f: "map_of ?b ''FIRST_SWITCHED'' = Some (JInt 1000)"
    and l: "map_of ?b ''LAST_SWITCHED'' = Some (JInt 4000)"
    by (simp_all add: flow4_def)
  have c: "Connection sample_env ?a ?b = Inr ?c"
    by (simp add: sample_simps)
  note t = human_strings_end_to_end
    [of ?a ?b ?b ?a sample_env ?c ?k 1536 59999]
  from t d n f l c
  have 1: "human_size ?c = Inr ''2.00K''" and 2: "human_duration ?c = Inr ''3 sec''"
    by blast+
  have "size_c ?k = JInt 1536 \<and> (1024 :: int) \<le> 1536 \<and> (1536 :: int) < 1024 ^ 2"
    by simp
  with t have "human_size ?k = Inr (fmt_2f (of_int 1536 / 1024) @ ''K'')"
    by blast
  moreover have "fmt_2f (of_int 1536 / 1024) = ''1.50''"
    by (simp add: fmt_2f_def round_half_even_def str_nat.simps)
  ultimately have 3: "human_size ?k = Inr ''1.50K''"
    by simp
  have "duration ?k = JInt 59999 \<and> (59999 :: int) div 1000 < 60"
    by simp
  with t have "human_duration ?k = Inr (str_int (59999 div 1000) @ '' sec'')"
    by blast
  moreover have "str_int (59999 div 1000) = ''59''"
    by (simp add: str_int_def str_nat.simps)
  ultimately have 4: "human_duration ?k = Inr ''59 sec''"
    by simp
  from d c 1 2 3 4 show ?thesis by blast
qed

text \<open>
  C8, as stated, fails: both lookups fail with OSError, and \<open>service\<close> returns the
  string "unknown", which is neither port number.
\<close>

theorem service_fallback_counterexample:
  "getservbyport sample_env (JInt 40000) = Inl OSError
   \<and> getservbyport sample_env (JInt 50000) = Inl OSError
   \<and> service sample_env \<lparr>src = IPv4Address 3232235777, dest = IPv4Address 167772161,
        src_port = JInt 40000, dest_port = JInt 50000, size_c = JInt 2048,
        duration = JInt 3000\<rparr> = Inr ''unknown''
   \<and> ''unknown'' \<noteq> str_int 40000 \<and> ''unknown'' \<noteq> str_int 50000"
  by (simp add: service_def sample_env_def sample_getservbyport_def str_int_def str_nat.simps)

text \<open>
  C8, amended. When the lookup fails with OSError for the source port and for the
  destination port, \<open>service\<close> does not raise and returns the string "unknown".
\<close>

theorem service_unknown_fallback:
  assumes "getservbyport E (src_port c) = Inl OSError"
    and "getservbyport E (dest_port c) = Inl OSError"
  shows "service E c = Inr ''unknown''"
  using assms by (simp add: service_def)

theorem service_unknown_fallback_witness:
  "getservbyport sample_env (src_port \<lparr>src = IPv4Address 3232235777, dest = IPv4Address 167772161,
        src_port = JInt 40000, dest_port = JInt 50000, size_c = JInt 2048,
        duration = JInt 3000\<rparr>) = Inl OSError
   \<and> getservbyport sample_env (dest_port \<lparr>src = IPv4Address 3232235777, dest = IPv4Address 167772161,
        src_port = JInt 40000, dest_port = JInt 50000, size_c = JInt 2048,
        duration = JInt 3000\<rparr>) = Inl OSError
   \<and> service sample_env \<lparr>src = IPv4Address 3232235777, dest = IPv4Address 167772161,
        src_port = JInt 40000, dest_port = JInt 50000, size_c = JInt 2048,
        duration = JInt 3000\<rparr> = Inr ''unknown''"
proof -
  let ?c = "\<lparr>src = IPv4Address 3232235777, dest = IPv4Address 167772161,
        src_port = JInt 40000, dest_port = JInt 50000, size_c = JInt 2048,
        duration = JInt 3000\<rparr>"
  have s: "getservbyport sample_env (src_port ?c) = Inl OSError"
    and d: "getservbyport sample_env (dest_port ?c) = Inl OSError"
    by (simp_all add: sample_env_def sample_getservbyport_def)
  from s d service_unknown_fallback [OF s d] show ?thesis by blast
qed

section \<open>The size threshold\<close>

text \<open>
  C9, as stated, fails: this Connection has a size above \<open>1024^2\<close>, and no line is
  printed, because the lookup of its source port 70000 raises OverflowError, which
  \<open>service\<close> does not catch; the script ends there.
\<close>

theorem large_transfer_counterexample:
  "Connection sample_env (flow4 167772161 3232235777 51000 443 100 1000 4000)
      (flow4 3232235777 167772161 70000 51000 2097152 1000 4000)
     = Inr \<lparr>src = IPv4Address 3232235777, dest = IPv4Address 167772161,
            src_port = JInt 70000, dest_port = JInt 51000, size_c = JInt 2097152,
            duration = JInt 3000\<rparr>
   \<and> (1024 :: int) ^ 2 < 2097152
   \<and> on_pair sample_env ''20'' \<lparr>pending = Some (flow4 167772161 3232235777 51000 443 100 1000 4000),
        printed = []\<rparr> (flow4 167772161 3232235777 51000 443 100 1000 4000)
      (flow4 3232235777 167772161 70000 51000 2097152 1000 4000)
     = Inl OverflowError"
proof -
  let ?a = "flow4 167772161 3232235777 51000 443 100 1000 4000"
  let ?b = "flow4 3232235777 167772161 70000 51000 2097152 1000 4000"
  let ?c = "\<lparr>src = IPv4Address 3232235777, dest = IPv4Address 167772161,
            src_port = JInt 70000, dest_port = JInt 51000, size_c = JInt 2097152,
            duration = JInt 3000\<rparr>"
  have c: "Connection sample_env ?a ?b = Inr ?c"
    by (simp add: sample_simps)
  have s: "summary_line sample_env ''20'' ?c = Inl OverflowError"
    by (simp add: summary_line_def service_def sample_env_def sample_getservbyport_def)
  have "on_pair sample_env ''20'' \<lparr>pending = Some ?a, printed = []\<rparr> ?a ?b = Inl OverflowError"
    by (simp add: on_pair_cases [OF c] s)
  with c show ?thesis by simp
qed

text \<open>
  C9, amended. For a paired Connection with an integer size: when the size is at most
  \<open>1024^2\<close>, nothing is printed and the loop goes on; when it is greater, exactly one
  summary line is printed provided the service lookup and the formatting of size and
  duration return, and the script ends with the exception when one of them raises. So
  whenever the loop body returns, it has printed a line if and only if the size is greater
  than \<open>1024^2\<close>.
\<close>

theorem large_transfers_only:
  assumes "Connection E p flow = Inr con" and "size_c con = JInt n"
  shows "(n \<le> 1024 ^ 2 \<longrightarrow> on_pair E ts st p flow = Inr (st\<lparr>pending := None\<rparr>))
    \<and> (1024 ^ 2 < n \<longrightarrow>
         (\<forall>sv sz du. service E con = Inr sv \<and> human_size con = Inr sz \<and>
                     human_duration con = Inr du \<longrightarrow>
            (\<exists>line. summary_line E ts con = Inr line \<and>
               on_pair E ts st p flow = Inr \<lparr>pending = None, printed = printed st @ [line]\<rparr>)))
    \<and> (1024 ^ 2 < n \<longrightarrow>
         (\<forall>e. service E con = Inl e \<or> human_size con = Inl e \<or> human_duration con = Inl e \<longrightarrow>
            (\<exists>e'. on_pair E ts st p flow = Inl e')))
    \<and> (\<forall>st'. on_pair E ts st p flow = Inr st' \<longrightarrow>
         (if 1024 ^ 2 < n then \<exists>line. printed st' = printed st @ [line]
          else printed st' = printed st))"
proof -
  note oc = on_pair_cases [OF assms, of ts st]
  have a: "n \<le> 1024 ^ 2 \<longrightarrow> on_pair E ts st p flow = Inr (st\<lparr>pending := None\<rparr>)"
    by (simp add: oc)
  have b: "\<exists>line. summary_line E ts con = Inr line \<and>
               on_pair E ts st p flow = Inr \<lparr>pending = None, printed = printed st @ [line]\<rparr>"
    if "1024 ^ 2 < n" and "service E con = Inr sv \<and> human_size con = Inr sz \<and>
                     human_duration con = Inr du" for sv sz du
  proof -
    from that(2) obtain line where "summary_line E ts con = Inr line"
      using summary_line_Inr [of E con sv sz du ts] by blast
    with that(1) show ?thesis by (simp add: oc)
  qed
  have c: "\<exists>e'. on_pair E ts st p flow = Inl e'"
    if "1024 ^ 2 < n" and "service E con = Inl e \<or> human_size con = Inl e \<or> human_duration con = Inl e" for e
  proof -
    from that(2) obtain e' where "summary_line E ts con = Inl e'"
      using summary_line_Inl [of E con e ts] by blast
    with that(1) show ?thesis by (simp add: oc)
  qed
  have d: "if 1024 ^ 2 < n then \<exists>line. printed st' = printed st @ [line]
          else printed st' = printed st"
    if "on_pair E ts st p flow = Inr st'" for st'
    using that by (auto simp: oc split: if_splits sum.splits)
  show ?thesis
    using a b c d by blast
qed

theorem large_transfers_only_witness:
  "Connection sample_env (flow4 167772161 3232235777 51000 443 100 1000 4000)
      (flow4 3232235777 167772161 443 51000 2097152 1000 4000)
     = Inr \<lparr>src = IPv4Address 3232235777, dest = IPv4Address 167772161,
            src_port = JInt 443, dest_port = JInt 51000, size_c = JInt 2097152,
            duration = JInt 3000\<rparr>
   \<and> (1024 :: int) ^ 2 < 2097152
   \<and> on_pair sample_env ''20'' \<lparr>pending = Some (flow4 167772161 3232235777 51000 443 100 1000 4000),
        printed = []\<rparr> (flow4 167772161 3232235777 51000 443 100 1000 4000)
      (flow4 3232235777 167772161 443 51000 2097152 1000 4000)
     = Inr \<lparr>pending = None, printed =
         [''20: HTTPS   | 2.00M    | 3 sec     | 192.168.1.1 (192.168.1.1) to 10.0.0.1 (10.0.0.1)'']\<rparr>
   \<and> Connection sample_env (flow4 167772161 3232235777 51000 443 100 1000 4000)
      (flow4 3232235777 167772161 443 51000 1048576 1000 4000)
     = Inr \<lparr>src = IPv4Address 3232235777, dest = IPv4Address 167772161,
            src_port = JInt 443, dest_port = JInt 51000, size_c = JInt 1048576,
            duration = JInt 3000\<rparr>
   \<and> (1048576 :: int) \<le> 1024 ^ 2
   \<and> on_pair sample_env ''20'' \<lparr>pending = Some (flow4 167772161 3232235777 51000 443 100 1000 4000),
        printed = []\<rparr> (flow4 167772161 3232235777 51000 443 100 1000 4000)
      (flow4 3232235777 167772161 443 51000 1048576 1000 4000)
     = Inr \<lparr>pending = None, printed = []\<rparr>"
proof -
  let ?a = "flow4 167772161 3232235777 51000 443 100 1000 4000"
  let ?b = "flow4 3232235777 167772161 443 51000 2097152 1000 4000"
  let ?b' = "flow4 3232235777 167772161 443 51000 1048576 1000 4000"
  let ?c = "\<lparr>src = IPv4Address 3232235777, dest = IPv4Address 167772161,
            src_port = JInt 443, dest_port = JInt 51000, size_c = JInt 2097152,
            duration = JInt 3000\<rparr>"
  let ?c' = "\<lparr>src = IPv4Address 3232235777, dest = IPv4Address 167772161,
            src_port = JInt 443, dest_port = JInt 51000, size_c = JInt 1048576,
            duration = JInt 3000\<rparr>"
  let ?st = "\<lparr>pending = Some ?a, printed = []\<rparr>"
  let ?line = "''20: HTTPS   | 2.00M    | 3 sec     | 192.168.1.1 (192.168.1.1) to 10.0.0.1 (10.0.0.1)''"
  have c: "Connection sample_env ?a ?b = Inr ?c" and c': "Connection sample_env ?a ?b' = Inr ?c'"
    by (simp_all add: sample_simps)
  have sz: "size_c ?c = JInt 2097152" and sz': "size_c ?c' = JInt 1048576"
    by simp_all
  have sv: "service sample_env ?c = Inr ''https''"
    by (simp add: service_def sample_env_def sample_getservbyport_def)
  note big = large_transfers_only [OF c sz, of "''20''" ?st]
  note small = large_transfers_only [OF c' sz', of "''20''" ?st]
  from big sv sample_human_size sample_human_duration
  obtain line where l: "summary_line sample_env ''20'' ?c = Inr line"
    and o: "on_pair sample_env ''20'' ?st ?a ?b = Inr \<lparr>pending = None, printed = printed ?st @ [line]\<rparr>"
    by auto
  from l have "line = ?line"
    by (simp add: sample_summary_line)
  with o have 1: "on_pair sample_env ''20'' ?st ?a ?b = Inr \<lparr>pending = None, printed = [?line]\<rparr>"
    by simp
  from small have 2: "on_pair sample_env ''20'' ?st ?a ?b' = Inr \<lparr>pending = None, printed = []\<rparr>"
    by simp
  from c c' 1 2 show ?thesis by simp
qed

section \<open>Pairing\<close>

text \<open>
  C4, as stated, fails on a batch that holds a record without fields, which Python's
  \<^verbatim>\<open>not pending\<close> takes for an empty slot: the script replaces the pending empty record
  by the second record and pairs the second with the third, where the specification's
  automaton pairs the first with the second (and the construction of that Connection
  raises KeyError).
\<close>

theorem batch_pairing_counterexample:
  "run_flows sample_env ''20'' \<lparr>pending = None, printed = []\<rparr>
     [[], flow4 167772161 3232235777 51000 443 100 1000 4000,
      flow4 3232235777 167772161 443 51000 2097152 1000 4000]
     = Inr \<lparr>pending = None, printed =
         [''20: HTTPS   | 2.00M    | 3 sec     | 192.168.1.1 (192.168.1.1) to 10.0.0.1 (10.0.0.1)'']\<rparr>
   \<and> spec_run_flows sample_env ''20'' \<lparr>pending = None, printed = []\<rparr>
     [[], flow4 167772161 3232235777 51000 443 100 1000 4000,
      flow4 3232235777 167772161 443 51000 2097152 1000 4000]
     = Inl (KeyError ''IN_BYTES'')
   \<and> pairs [[], flow4 167772161 3232235777 51000 443 100 1000 4000,
      flow4 3232235777 167772161 443 51000 2097152 1000 4000]
     = [([], flow4 167772161 3232235777 51000 443 100 1000 4000)]"
proof -
  let ?a = "flow4 167772161 3232235777 51000 443 100 1000 4000"
  let ?b = "flow4 3232235777 167772161 443 51000 2097152 1000 4000"
  let ?c = "\<lparr>src = IPv4Address 3232235777, dest = IPv4Address 167772161,
            src_port = JInt 443, dest_port = JInt 51000, size_c = JInt 2097152,
            duration = JInt 3000\<rparr>"
  have ne: "?a \<noteq> []" by (simp add: flow4_def)
  have c: "Connection sample_env ?a ?b = Inr ?c"
    by (simp add: sample_simps)
  have o: "on_pair sample_env ''20'' \<lparr>pending = Some ?a, printed = []\<rparr> ?a ?b
     = Inr \<lparr>pending = None, printed =
         [''20: HTTPS   | 2.00M    | 3 sec     | 192.168.1.1 (192.168.1.1) to 10.0.0.1 (10.0.0.1)'']\<rparr>"
    by (simp add: on_pair_cases [OF c] sample_summary_line)
  have 1: "run_flows sample_env ''20'' \<lparr>pending = None, printed = []\<rparr> [[], ?a, ?b]
     = Inr \<lparr>pending = None, printed =
         [''20: HTTPS   | 2.00M    | 3 sec     | 192.168.1.1 (192.168.1.1) to 10.0.0.1 (10.0.0.1)'']\<rparr>"
    by (simp add: step_def not_pending_def ne o)
  have 2: "spec_run_flows sample_env ''20'' \<lparr>pending = None, printed = []\<rparr> [[], ?a, ?b]
     = Inl (KeyError ''IN_BYTES'')"
    by (simp add: spec_step_def on_pair_def Connection_def dominant_def getitem_def)
  from 1 2 show ?thesis by simp
qed

text \<open>
  C4, amended. On every batch whose flow records all have at least one field, the loop
  is the specification's two-slot automaton: with no flow pending the record is stored,
  with one pending a Connection is built from (pending, incoming) and the slot is
  cleared. So the records are handled two at a time in arrival order, (1st, 2nd),
  (3rd, 4th) and so on, whatever the two records are, and a last record without partner
  stays in the slot.
\<close>

theorem batch_is_two_slot_automaton:
  assumes "\<forall>f \<in> set flows. f \<noteq> []"
  shows "run_flows E ts (st\<lparr>pending := None\<rparr>) flows
           = spec_run_flows E ts (st\<lparr>pending := None\<rparr>) flows
    \<and> run_flows E ts (st\<lparr>pending := None\<rparr>) flows
           = (case run_pairs E ts (st\<lparr>pending := None\<rparr>) (pairs flows) of
                Inl e \<Rightarrow> Inl e
              | Inr s \<Rightarrow> Inr (s\<lparr>pending := leftover flows\<rparr>))
    \<and> (\<forall>st' flow. pending st' \<noteq> Some [] \<longrightarrow> step E ts st' flow = spec_step E ts st' flow)"
proof -
  have a: "run_flows E ts (st\<lparr>pending := None\<rparr>) flows
           = spec_run_flows E ts (st\<lparr>pending := None\<rparr>) flows"
    using assms by (rule run_flows_is_spec) simp
  have b: "spec_run_flows E ts (st\<lparr>pending := None\<rparr>) flows
           = (case run_pairs E ts (st\<lparr>pending := None\<rparr>) (pairs flows) of
                Inl e \<Rightarrow> Inl e
              | Inr s \<Rightarrow> Inr (s\<lparr>pending := leftover flows\<rparr>))"
    by (rule spec_run_flows_pairs) simp
  have c: "\<forall>st' flow. pending st' \<noteq> Some [] \<longrightarrow> step E ts st' flow = spec_step E ts st' flow"
    by (simp add: step_is_spec_step)
  from a b c show ?thesis by simp
qed

theorem batch_is_two_slot_automaton_witness:
  "flow4 167772161 3232235777 51000 443 100 1000 4000 \<noteq> []
   \<and> flow4 3232235777 167772161 443 51000 2097152 1000 4000 \<noteq> []
   \<and> flow4 167772161 3232235777 51000 22 100 4000000000 1000 \<noteq> []
   \<and> pairs [flow4 167772161 3232235777 51000 443 100 1000 4000,
            flow4 3232235777 167772161 443 51000 2097152 1000 4000,
            flow4 167772161 3232235777 51000 22 100 4000000000 1000]
       = [(flow4 167772161 3232235777 51000 443 100 1000 4000,
           flow4 3232235777 167772161 443 51000 2097152 1000 4000)]
   \<and> run_flows sample_env ''20'' \<lparr>pending = None, printed = []\<rparr>
        [flow4 167772161 3232235777 51000 443 100 1000 4000,
         flow4 3232235777 167772161 443 51000 2097152 1000 4000,
         flow4 167772161 3232235777 51000 22 100 4000000000 1000]
       = Inr \<lparr>pending = Some (flow4 167772161 3232235777 51000 22 100 4000000000 1000),
              printed =
         [''20: HTTPS   | 2.00M    | 3 sec     | 192.168.1.1 (192.168.1.1) to 10.0.0.1 (10.0.0.1)'']\<rparr>
   \<and> spec_run_flows sample_env ''20'' \<lparr>pending = None, printed = []\<rparr>
        [flow4 167772161 3232235777 51000 443 100 1000 4000,
         flow4 3232235777 167772161 443 51000 2097152 1000 4000,
         flow4 167772161 3232235777 51000 22 100 4000000000 1000]
       = Inr \<lparr>pending = Some (flow4 167772161 3232235777 51000 22 100 4000000000 1000),
              printed =
         [''20: HTTPS   | 2.00M    | 3 sec     | 192.168.1.1 (192.168.1.1) to 10.0.0.1 (10.0.0.1)'']\<rparr>"
proof -
  let ?a = "flow4 167772161 3232235777 51000 443 100 1000 4000"
  let ?b = "flow4 3232235777 167772161 443 51000 2097152 1000 4000"
  let ?t = "flow4 167772161 3232235777 51000 22 100 4000000000 1000"
  let ?c = "\<lparr>src = IPv4Address 3232235777, dest = IPv4Address 167772161,
            src_port = JInt 443, dest_port = JInt 51000, size_c = JInt 2097152,
            duration = JInt 3000\<rparr>"
  let ?st = "\<lparr>pending = None, printed = []\<rparr>"
  let ?line = "''20: HTTPS   | 2.00M    | 3 sec     | 192.168.1.1 (192.168.1.1) to 10.0.0.1 (10.0.0.1)''"
  have ne: "\<forall>f \<in> set [?a, ?b, ?t]. f \<noteq> []"
    by (simp add: flow4_def)
  have c: "Connection sample_env ?a ?b = Inr ?c"
    by (simp add: sample_simps)
  have o: "on_pair sample_env ''20'' ?st ?a ?b = Inr \<lparr>pending = None, printed = [?line]\<rparr>"
    by (simp add: on_pair_cases [OF c] sample_summary_line)
  have p: "run_pairs sample_env ''20'' ?st (pairs [?a, ?b, ?t])
             = Inr \<lparr>pending = None, printed = [?line]\<rparr>"
    by (simp add: o)
  have eq: "?st\<lparr>pending := None\<rparr> = ?st" by simp
  note r = batch_is_two_slot_automaton [OF ne, of sample_env "''20''" ?st, unfolded eq]
  have r1: "run_flows sample_env ''20'' ?st [?a, ?b, ?t]
              = spec_run_flows sample_env ''20'' ?st [?a, ?b, ?t]"
    using r by blast
  have r2: "run_flows sample_env ''20'' ?st [?a, ?b, ?t]
           = (case run_pairs sample_env ''20'' ?st (pairs [?a, ?b, ?t]) of
                Inl e \<Rightarrow> Inl e
              | Inr s \<Rightarrow> Inr (s\<lparr>pending := leftover [?a, ?b, ?t]\<rparr>))"
    using r by blast
  have v: "(case run_pairs sample_env ''20'' ?st (pairs [?a, ?b, ?t]) of
                Inl e \<Rightarrow> Inl e
              | Inr s \<Rightarrow> Inr (s\<lparr>pending := leftover [?a, ?b, ?t]\<rparr>))
           = Inr \<lparr>pending = Some ?t, printed = [?line]\<rparr>"
    by (simp only: p) simp
  have 1: "run_flows sample_env ''20'' ?st [?a, ?b, ?t] = Inr \<lparr>pending = Some ?t, printed = [?line]\<rparr>"
    by (simp only: r2 v)
  have 2: "spec_run_flows sample_env ''20'' ?st [?a, ?b, ?t] = Inr \<lparr>pending = Some ?t, printed = [?line]\<rparr>"
    using r1 1 by (simp only:)
  have pr: "pairs [?a, ?b, ?t] = [(?a, ?b)]" by simp
  have "?a \<noteq> []" and "?b \<noteq> []" and "?t \<noteq> []"
    using ne by simp_all
  with pr 1 2 show ?thesis by blast
qed

text \<open>
  C6. The pending slot is empty at the start of every export: the result of an export
  does not depend on what was pending before it, its first record is only stored, and
  what the script prints is, export by export in sorted order, what each export prints
  when processed alone. In the sample dump the single record of export "10" is dropped:
  the only line is that of the pair of export "20".
\<close>

theorem pending_does_not_leak:
  "run_export E data (st\<lparr>pending := p\<rparr>) export = run_export E data st export
   \<and> run_export E data st export =
       (case format_timestamp E export of
          Inl e \<Rightarrow> Inl e
        | Inr timestamp \<Rightarrow>
            (case map_of data export of
               None \<Rightarrow> Inl (KeyError export)
             | Some [] \<Rightarrow> Inr (st\<lparr>pending := None\<rparr>)
             | Some (flow # flows) \<Rightarrow> run_flows E timestamp (st\<lparr>pending := Some flow\<rparr>) flows))
   \<and> (case run_exports E data st exports of Inl e \<Rightarrow> Inl e | Inr s \<Rightarrow> Inr (printed s))
     = (case exports_alone E data exports of Inl e \<Rightarrow> Inl e | Inr ls \<Rightarrow> Inr (printed st @ ls))
   \<and> (case main E data of Inl e \<Rightarrow> Inl e | Inr s \<Rightarrow> Inr (printed s))
     = exports_alone E data (sort (map fst data))"
proof -
  have a: "run_export E data (st\<lparr>pending := p\<rparr>) export = run_export E data st export"
    by (rule run_export_pending_irrelevant)
  have b: "run_export E data st export =
       (case format_timestamp E export of
          Inl e \<Rightarrow> Inl e
        | Inr timestamp \<Rightarrow>
            (case map_of data export of
               None \<Rightarrow> Inl (KeyError export)
             | Some [] \<Rightarrow> Inr (st\<lparr>pending := None\<rparr>)
             | Some (flow # flows) \<Rightarrow> run_flows E timestamp (st\<lparr>pending := Some flow\<rparr>) flows))"
    by (simp add: run_export_def step_def not_pending_def split: sum.splits option.splits list.splits)
  have c: "(case run_exports E data st exports of Inl e \<Rightarrow> Inl e | Inr s \<Rightarrow> Inr (printed s))
     = (case exports_alone E data exports of Inl e \<Rightarrow> Inl e | Inr ls \<Rightarrow> Inr (printed st @ ls))"
    by (rule run_exports_printed)
  have d: "(case main E data of Inl e \<Rightarrow> Inl e | Inr s \<Rightarrow> Inr (printed s))
     = exports_alone E data (sort (map fst data))"
    using run_exports_printed [of E data "\<lparr>pending = None, printed = []\<rparr>" "sort (map fst data)"]
    by (simp add: main_def split: sum.splits)
  from a b c d show ?thesis by blast
qed

theorem pending_does_not_leak_witness:
  "sort (map fst sample_dump) = [''10'', ''20'']
   \<and> export_alone sample_env sample_dump ''10'' = Inr []
   \<and> (case main sample_env sample_dump of Inl e \<Rightarrow> Inl e | Inr s \<Rightarrow> Inr (printed s))
     = Inr [''20: HTTPS   | 2.00M    | 3 sec     | 192.168.1.1 (192.168.1.1) to 10.0.0.1 (10.0.0.1)'']"
proof -
  let ?a = "flow4 167772161 3232235777 51000 443 100 1000 4000"
  let ?b = "flow4 3232235777 167772161 443 51000 2097152 1000 4000"
  let ?c = "\<lparr>src = IPv4Address 3232235777, dest = IPv4Address 167772161,
            src_port = JInt 443, dest_port = JInt 51000, size_c = JInt 2097152,
            duration = JInt 3000\<rparr>"
  let ?line = "''20: HTTPS   | 2.00M    | 3 sec     | 192.168.1.1 (192.168.1.1) to 10.0.0.1 (10.0.0.1)''"
  have k: "sort (map fst sample_dump) = [''10'', ''20'']"
    by (simp add: sample_dump_def)
  have ne: "?a \<noteq> []" by (simp add: flow4_def)
  have c: "Connection sample_env ?a ?b = Inr ?c"
    by (simp add: sample_simps)
  have o: "on_pair sample_env ''20'' \<lparr>pending = Some ?a, printed = []\<rparr> ?a ?b
     = Inr \<lparr>pending = None, printed = [?line]\<rparr>"
    by (simp add: on_pair_cases [OF c] sample_summary_line)
  have t: "format_timestamp sample_env ''10'' = Inr ''10''" "format_timestamp sample_env ''20'' = Inr ''20''"
    by (simp_all add: sample_env_def sample_format_timestamp_def)
  have e1: "export_alone sample_env sample_dump ''10'' = Inr []"
    by (simp add: export_alone_def run_export_def t sample_dump_def step_def not_pending_def)
  have e2: "export_alone sample_env sample_dump ''20'' = Inr [?line]"
    by (simp add: export_alone_def run_export_def t sample_dump_def step_def not_pending_def ne o)
  have "exports_alone sample_env sample_dump [''10'', ''20''] = Inr [?line]"
    by (simp add: e1 e2)
  with pending_does_not_leak [of sample_env sample_dump] k
  have "(case main sample_env sample_dump of Inl e \<Rightarrow> Inl e | Inr s \<Rightarrow> Inr (printed s)) = Inr [?line]"
    by simp
  with k e1 show ?thesis by blast
qed

end
